theory Spec2Isabelle
  imports Complex_Main "HOL-Library.Log_Nat" "HOL-Library.List_Lexorder" "HOL-Library.Char_ord"
begin

section \<open>Errors and data frames\<close>

text \<open>
  Every \<^verbatim>\<open>raise\<close> of \<^verbatim>\<open>basic_models_base.py\<close> is a value of \<open>error\<close>. The string is
  the static part of the Python message (interpolated values are left out).
  \<open>IndexError\<close> and the \<open>ValueError\<close> of an index assignment are the ones pandas raises.
\<close>

datatype error =
    ValueError string
  | Exception string
  | IndexError string
  | ZeroDivisionError string
  | OverflowError string

text \<open>
  A pandas data frame, as far as the module looks at it: the ordered column names and the
  rows, each row being its label (an entry of \<^verbatim>\<open>df.index\<close>) and its cell values.
\<close>

record 'v DataFrame =
  columns :: "string list"
  rows :: "(int \<times> 'v list) list"

definition len_df :: "'v DataFrame \<Rightarrow> nat" where
  "len_df df = length (rows df)"

definition index :: "'v DataFrame \<Rightarrow> int list" where
  "index df = map fst (rows df)"

definition shape1 :: "'v DataFrame \<Rightarrow> nat" where
  "shape1 df = length (columns df)"

text \<open>
  \<^verbatim>\<open>df.iloc[indices]\<close> with a list of positions: a position \<open>i\<close> is admissible when
  \<open>-n \<le> i < n\<close>, negative positions count from the end, anything else raises IndexError.
  Row labels travel with the rows.
\<close>

definition iloc_pos :: "nat \<Rightarrow> int \<Rightarrow> nat" where
  "iloc_pos n i = nat (if i < 0 then int n + i else i)"

definition iloc_ok :: "nat \<Rightarrow> int \<Rightarrow> bool" where
  "iloc_ok n i = (- int n \<le> i \<and> i < int n)"

definition iloc :: "'v DataFrame \<Rightarrow> int list \<Rightarrow> error + 'v DataFrame" where
  "iloc df indices =
     (if list_all (iloc_ok (len_df df)) indices
      then Inr (df\<lparr>rows := map (\<lambda>i. rows df ! iloc_pos (len_df df) i) indices\<rparr>)
      else Inl (IndexError ''positional indexers are out-of-bounds''))"

text \<open>\<^verbatim>\<open>df.iloc[:, j]\<close>: the values of column \<open>j\<close>, IndexError when there is no such column.\<close>

definition iloc_col :: "'v DataFrame \<Rightarrow> nat \<Rightarrow> error + 'v list" where
  "iloc_col df j =
     (if j < shape1 df then Inr (map (\<lambda>r. snd r ! j) (rows df))
      else Inl (IndexError ''single positional indexer is out-of-bounds''))"

text \<open>\<^verbatim>\<open>y.index = labels\<close>: pandas raises ValueError when the lengths differ.\<close>

definition set_index :: "'v DataFrame \<Rightarrow> int list \<Rightarrow> error + 'v DataFrame" where
  "set_index y labels =
     (if length labels \<noteq> len_df y then Inl (ValueError ''Length mismatch'')
      else Inr (y\<lparr>rows := zip labels (map snd (rows y))\<rparr>))"

text \<open>
  \<^verbatim>\<open>Series.unique()\<close>: the distinct values in order of first appearance (pandas does not
  sort them).
\<close>

primrec unique_from :: "'a list \<Rightarrow> 'a list \<Rightarrow> 'a list" where
  "unique_from seen [] = []"
| "unique_from seen (x # xs) =
     (if x \<in> set seen then unique_from seen xs else x # unique_from (x # seen) xs)"

definition unique :: "'a list \<Rightarrow> 'a list" where
  "unique xs = unique_from [] xs"

subsection \<open>Python slices\<close>

text \<open>
  \<^verbatim>\<open>xs[a:b]\<close>, \<^verbatim>\<open>xs[a:]\<close> and \<^verbatim>\<open>xs[:b]\<close>: a negative bound counts from the end, and every
  bound is clamped to \<open>0..len(xs)\<close>.
\<close>

definition slice_bound :: "nat \<Rightarrow> int \<Rightarrow> nat" where
  "slice_bound n i = (if i < 0 then nat (max 0 (int n + i)) else min n (nat i))"

definition slice :: "'a list \<Rightarrow> int \<Rightarrow> int \<Rightarrow> 'a list" where
  "slice xs a b =
     (let lo = slice_bound (length xs) a; hi = slice_bound (length xs) b
      in take (hi - lo) (drop lo xs))"

definition slice_from :: "'a list \<Rightarrow> int \<Rightarrow> 'a list" where
  "slice_from xs a = drop (slice_bound (length xs) a) xs"

definition slice_to :: "'a list \<Rightarrow> int \<Rightarrow> 'a list" where
  "slice_to xs b = take (slice_bound (length xs) b) xs"

subsection \<open>Python numbers\<close>

text \<open>
  The values \<^verbatim>\<open>testFraction\<close> can take: a Python \<^verbatim>\<open>int\<close> (or \<^verbatim>\<open>bool\<close>), or a
  \<^verbatim>\<open>float\<close>. A finite float is given by its exact value, a rational number; nan and the
  two infinities are values of their own (\<open>PyFloatInf True\<close> is \<open>+inf\<close>).
\<close>

datatype pynum = PyInt int | PyFloat rat | PyFloatNaN | PyFloatInf bool

text \<open>
  Rounding to the nearest IEEE 754 double, ties to even: \<open>float_exponent x\<close> is
  \<open>floor (log2 x)\<close> for \<open>x > 0\<close>, the spacing of the doubles around \<open>x\<close> is
  \<open>2 ^ (e - 52)\<close> with \<open>e\<close> not below the least normal exponent \<open>-1022\<close>. Overflow to
  infinity is left out: the only integers converted to a float here are lengths, which
  Python keeps below \<open>2 ^ 63\<close>, and they are multiplied by a fraction in \<open>[0, 1]\<close>.
\<close>

definition float_exponent :: "rat \<Rightarrow> int" where
  "float_exponent x =
     (let e = bitlen (fst (quotient_of x)) - bitlen (snd (quotient_of x))
      in if 2 powi e \<le> x then e else e - 1)"

definition round_half_even :: "rat \<Rightarrow> int" where
  "round_half_even q =
     (let f = \<lfloor>q\<rfloor>; r = q - of_int f
      in if r < 1 / 2 then f else if 1 / 2 < r then f + 1 else if even f then f else f + 1)"

definition round_double :: "rat \<Rightarrow> rat" where
  "round_double x =
     (if x = 0 then 0
      else (let a = \<bar>x\<bar>; ulp = 2 powi (max (float_exponent a) (- 1022) - 52)
            in sgn x * of_int (round_half_even (a / ulp)) * ulp))"

text \<open>
  \<^verbatim>\<open>n * x\<close> for an \<^verbatim>\<open>int\<close> \<open>n \<ge> 0\<close>: exact when \<open>x\<close> is an \<^verbatim>\<open>int\<close>; for a float, \<open>n\<close> is
  converted to a double and the product of the two doubles is rounded.
\<close>

definition py_mul_nat :: "nat \<Rightarrow> pynum \<Rightarrow> pynum" where
  "py_mul_nat n x =
     (case x of
        PyInt k \<Rightarrow> PyInt (int n * k)
      | PyFloat y \<Rightarrow> PyFloat (round_double (round_double (of_nat n) * y))
      | PyFloatNaN \<Rightarrow> PyFloatNaN
      | PyFloatInf pos \<Rightarrow> (if n = 0 then PyFloatNaN else PyFloatInf pos))"

text \<open>\<^verbatim>\<open>int(x)\<close> truncates towards zero, and raises on nan and on an infinity.\<close>

definition py_trunc :: "rat \<Rightarrow> int" where
  "py_trunc x = (if 0 \<le> x then \<lfloor>x\<rfloor> else - \<lfloor>- x\<rfloor>)"

definition py_int :: "pynum \<Rightarrow> error + int" where
  "py_int x =
     (case x of
        PyInt k \<Rightarrow> Inr k
      | PyFloat y \<Rightarrow> Inr (py_trunc y)
      | PyFloatNaN \<Rightarrow> Inl (ValueError ''cannot convert float NaN to integer'')
      | PyFloatInf pos \<Rightarrow> Inl (OverflowError ''cannot convert float infinity to integer''))"

text \<open>\<^verbatim>\<open>0 <= x <= 1\<close>: every comparison with nan is false.\<close>

definition in_unit_interval :: "pynum \<Rightarrow> bool" where
  "in_unit_interval x =
     (case x of
        PyInt k \<Rightarrow> 0 \<le> k \<and> k \<le> 1
      | PyFloat y \<Rightarrow> 0 \<le> y \<and> y \<le> 1
      | PyFloatNaN \<Rightarrow> False
      | PyFloatInf pos \<Rightarrow> False)"

section \<open>InputOutputData\<close>

record 'v InputOutputData =
  inputs :: "'v DataFrame"
  outputs :: "'v DataFrame"

definition InputOutputData_init ::
  "'v DataFrame \<Rightarrow> 'v DataFrame \<Rightarrow> error + 'v InputOutputData" where
  "InputOutputData_init inp outp =
     (if len_df inp \<noteq> len_df outp then Inl (ValueError ''Lengths do not match'')
      else Inr \<lparr>inputs = inp, outputs = outp\<rparr>)"

definition len :: "'v InputOutputData \<Rightarrow> nat" where
  "len d = len_df (inputs d)"

definition inputDim :: "'v InputOutputData \<Rightarrow> nat" where
  "inputDim d = shape1 (inputs d)"

definition outputDim :: "'v InputOutputData \<Rightarrow> nat" where
  "outputDim d = shape1 (outputs d)"

definition filterIndices :: "'v InputOutputData \<Rightarrow> int list \<Rightarrow> error + 'v InputOutputData" where
  "filterIndices d indices =
     (case iloc (inputs d) indices of
        Inl e \<Rightarrow> Inl e
      | Inr inp \<Rightarrow>
          (case iloc (outputs d) indices of
             Inl e \<Rightarrow> Inl e
           | Inr outp \<Rightarrow> InputOutputData_init inp outp))"

text \<open>The class invariant: both frames have the same number of rows.\<close>

definition valid_data :: "'v InputOutputData \<Rightarrow> bool" where
  "valid_data d = (len_df (inputs d) = len_df (outputs d))"

section \<open>VectorModelEvaluator\<close>

text \<open>
  \<^verbatim>\<open>np.random.RandomState(randomSeed).permutation(n)\<close> is numpy's, not this module's.
  \<^verbatim>\<open>RandomState\<close> raises ValueError for an integer seed outside \<open>0 .. 2^32 - 1\<close>. What
  the generator then returns is a parameter \<open>permutation\<close> of the model: the permutation
  a generator freshly seeded with the seed returns first, for \<open>n\<close> positions. What the
  module relies on is that this is a permutation of \<open>0..<n\<close>.
\<close>

type_synonym rng = "int \<Rightarrow> nat \<Rightarrow> nat list"

definition valid_seed :: "int \<Rightarrow> bool" where
  "valid_seed randomSeed = (0 \<le> randomSeed \<and> randomSeed < 2 ^ 32)"

definition RandomState_permutation :: "rng \<Rightarrow> int \<Rightarrow> nat \<Rightarrow> error + nat list" where
  "RandomState_permutation permutation randomSeed n =
     (if valid_seed randomSeed then Inr (permutation randomSeed n)
      else Inl (ValueError ''Seed must be between 0 and 2**32 - 1''))"

definition permutation_of :: "nat \<Rightarrow> nat list \<Rightarrow> bool" where
  "permutation_of n xs = (distinct xs \<and> set xs = {0..<n})"

record 'v VectorModelEvaluator =
  testFraction :: "pynum option"
  trainingData :: "'v InputOutputData"
  testData :: "'v InputOutputData"

text \<open>
  The locals \<^verbatim>\<open>splitIndex\<close>, \<^verbatim>\<open>trainingIndices\<close> and \<^verbatim>\<open>testIndices\<close> of the constructor:
  \<^verbatim>\<open>int(numDataPoints * testFraction)\<close> and the two slices of the permutation.
\<close>

definition splitIndex :: "nat \<Rightarrow> pynum \<Rightarrow> error + int" where
  "splitIndex numDataPoints tf = py_int (py_mul_nat numDataPoints tf)"

definition trainingIndices :: "nat list \<Rightarrow> int \<Rightarrow> nat list" where
  "trainingIndices permutedIndices k = slice_from permutedIndices k"

definition testIndices :: "nat list \<Rightarrow> int \<Rightarrow> nat list" where
  "testIndices permutedIndices k = slice_to permutedIndices k"

text \<open>
  The arguments \<^verbatim>\<open>testFraction\<close> and \<^verbatim>\<open>testData\<close> default to \<^verbatim>\<open>None\<close>. The last
  branch is the \<^verbatim>\<open>else\<close> of the constructor, where \<^verbatim>\<open>testData\<close> is known to be given.
\<close>

definition VectorModelEvaluator_init ::
  "rng \<Rightarrow> 'v InputOutputData \<Rightarrow> pynum option \<Rightarrow> 'v InputOutputData option \<Rightarrow> int
     \<Rightarrow> error + 'v VectorModelEvaluator" where
  "VectorModelEvaluator_init permutation data tfrac tdata randomSeed =
     (if tfrac = None \<and> tdata = None
        then Inl (Exception ''Either testFraction or testData must be provided'')
      else if tfrac \<noteq> None \<and> tdata \<noteq> None
        then Inl (Exception ''Cannot provide both testFraction and testData'')
      else
        (case tfrac of
           Some tf \<Rightarrow>
             if \<not> in_unit_interval tf then Inl (Exception ''invalid testFraction'')
             else
               (let numDataPoints = len data in
                 (case RandomState_permutation permutation randomSeed numDataPoints of
                    Inl e \<Rightarrow> Inl e
                  | Inr permutedIndices \<Rightarrow>
                      (case splitIndex numDataPoints tf of
                         Inl e \<Rightarrow> Inl e
                       | Inr k \<Rightarrow>
                           (case filterIndices data
                                   (map int (trainingIndices permutedIndices k)) of
                              Inl e \<Rightarrow> Inl e
                            | Inr tr \<Rightarrow>
                                (case filterIndices data
                                        (map int (testIndices permutedIndices k)) of
                                   Inl e \<Rightarrow> Inl e
                                 | Inr te \<Rightarrow>
                                     Inr \<lparr>testFraction = tfrac, trainingData = tr,
                                          testData = te\<rparr>)))))
         | None \<Rightarrow>
             (case tdata of
                Some td \<Rightarrow> Inr \<lparr>testFraction = tfrac, trainingData = data, testData = td\<rparr>
              | None \<Rightarrow> Inl (Exception ''Either testFraction or testData must be provided''))))"

section \<open>VectorModelCrossValidator\<close>

record 'v VectorModelCrossValidator =
  modelEvaluators :: "'v VectorModelEvaluator list"

text \<open>
  \<^verbatim>\<open>_createModelEvaluator\<close> as both concrete cross-validators implement it: an evaluator
  given explicit test data (and the default seed 42, which is then not used).
\<close>

definition createModelEvaluator ::
  "rng \<Rightarrow> 'v InputOutputData \<Rightarrow> 'v InputOutputData \<Rightarrow> error + 'v VectorModelEvaluator" where
  "createModelEvaluator permutation trainingData' testData' =
     VectorModelEvaluator_init permutation trainingData' None (Some testData') 42"

text \<open>The locals of the constructor's loop body, for fold \<open>i\<close>.\<close>

definition fold_testIndices :: "nat list \<Rightarrow> int \<Rightarrow> int \<Rightarrow> nat list" where
  "fold_testIndices permutedIndices numTestPoints i =
     (let testStartIdx = i * numTestPoints; testEndIdx = testStartIdx + numTestPoints
      in slice permutedIndices testStartIdx testEndIdx)"

definition fold_trainIndices :: "nat list \<Rightarrow> int \<Rightarrow> int \<Rightarrow> nat list" where
  "fold_trainIndices permutedIndices numTestPoints i =
     (let testStartIdx = i * numTestPoints; testEndIdx = testStartIdx + numTestPoints
      in slice_to permutedIndices testStartIdx @ slice_from permutedIndices testEndIdx)"

fun cv_loop ::
  "rng \<Rightarrow> 'v InputOutputData \<Rightarrow> nat list \<Rightarrow> int \<Rightarrow> int list \<Rightarrow> 'v VectorModelEvaluator list
     \<Rightarrow> error + 'v VectorModelEvaluator list" where
  "cv_loop permutation data permutedIndices numTestPoints [] evs = Inr evs"
| "cv_loop permutation data permutedIndices numTestPoints (i # is) evs =
     (case filterIndices data (map int (fold_trainIndices permutedIndices numTestPoints i)) of
        Inl e \<Rightarrow> Inl e
      | Inr tr \<Rightarrow>
          (case filterIndices data (map int (fold_testIndices permutedIndices numTestPoints i)) of
             Inl e \<Rightarrow> Inl e
           | Inr te \<Rightarrow>
               (case createModelEvaluator permutation tr te of
                  Inl e \<Rightarrow> Inl e
                | Inr ev \<Rightarrow>
                    cv_loop permutation data permutedIndices numTestPoints is (evs @ [ev]))))"

text \<open>\<^verbatim>\<open>range(folds)\<close> is empty for \<open>folds \<le> 0\<close>; \<^verbatim>\<open>numDataPoints // 0\<close> raises.\<close>

definition py_range :: "int \<Rightarrow> int list" where
  "py_range n = map int [0..<nat n]"

definition VectorModelCrossValidator_init ::
  "rng \<Rightarrow> 'v InputOutputData \<Rightarrow> int \<Rightarrow> int \<Rightarrow> error + 'v VectorModelCrossValidator" where
  "VectorModelCrossValidator_init permutation data folds randomSeed =
     (let numDataPoints = len data in
       (case RandomState_permutation permutation randomSeed numDataPoints of
          Inl e \<Rightarrow> Inl e
        | Inr permutedIndices \<Rightarrow>
            if folds = 0 then Inl (ZeroDivisionError ''integer division or modulo by zero'')
            else
              (let numTestPoints = int numDataPoints div folds in
                (case cv_loop permutation data permutedIndices numTestPoints (py_range folds) [] of
                   Inl e \<Rightarrow> Inl e
                 | Inr evs \<Rightarrow> Inr \<lparr>modelEvaluators = evs\<rparr>))))"

text \<open>
  The remainder of the claim about folds, in the spec's words: the last
  \<open>N - K * floor (N / K)\<close> positions of the permutation.
\<close>

definition spec_remainderIndices :: "nat list \<Rightarrow> nat \<Rightarrow> nat list" where
  "spec_remainderIndices permutedIndices K =
     drop (K * (length permutedIndices div K)) permutedIndices"

section \<open>PredictorModel and ChainedVectorRegressionPredictor\<close>

text \<open>
  \<^verbatim>\<open>PredictorModel\<close> is abstract: a predictor is given by what its two methods return.
\<close>

record 'v PredictorModel =
  pm_predict :: "'v DataFrame \<Rightarrow> error + 'v DataFrame"
  pm_getPredictedVariableNames :: "string list option"

record 'v ChainedVectorRegressionPredictor =
  nChainedPredictions :: int
  predictor :: "'v PredictorModel"

text \<open>
  Both operations return, next to their result, the log of the calls they made to the
  wrapped predictor's \<^verbatim>\<open>predict\<close>: the frames it was called with, in order. The
  constructor stores its two arguments and has no \<^verbatim>\<open>raise\<close>.
\<close>

definition ChainedVectorRegressionPredictor_init ::
  "'v PredictorModel \<Rightarrow> int
     \<Rightarrow> (error + 'v ChainedVectorRegressionPredictor) \<times> 'v DataFrame list" where
  "ChainedVectorRegressionPredictor_init p n =
     (Inr \<lparr>nChainedPredictions = n, predictor = p\<rparr>, [])"

function predict_loop ::
  "'v PredictorModel \<Rightarrow> int \<Rightarrow> int \<Rightarrow> 'v DataFrame \<Rightarrow> 'v DataFrame list
     \<Rightarrow> (error + 'v DataFrame) \<times> 'v DataFrame list" where
  "predict_loop p n nPredictions predictions calls =
     (if nPredictions < n
      then (case pm_predict p predictions of
              Inl e \<Rightarrow> (Inl e, calls @ [predictions])
            | Inr y \<Rightarrow> predict_loop p n (nPredictions + 1) y (calls @ [predictions]))
      else (Inr predictions, calls))"
  by pat_completeness auto
termination
  by (relation "measure (\<lambda>(p, n, nPredictions, predictions, calls). nat (n - nPredictions))")
    auto

declare predict_loop.simps [simp del]

definition ChainedVectorRegressionPredictor_predict ::
  "'v ChainedVectorRegressionPredictor \<Rightarrow> 'v DataFrame
     \<Rightarrow> (error + 'v DataFrame) \<times> 'v DataFrame list" where
  "ChainedVectorRegressionPredictor_predict self x =
     (case pm_predict (predictor self) x of
        Inl e \<Rightarrow> (Inl e, [x])
      | Inr predictions \<Rightarrow>
          (let inputDim = shape1 predictions; outputDim = shape1 x
           in if inputDim \<noteq> outputDim
              then (Inl (Exception ''cannot be used for chained execution''), [x])
              else predict_loop (predictor self) (nChainedPredictions self) 1 predictions [x]))"

section \<open>DataFrameTransformer and VectorModel\<close>

text \<open>
  A transformer is an object with a state and the two abstract methods: \<^verbatim>\<open>fit\<close> updates
  the state, \<^verbatim>\<open>apply\<close> reads it. Either may raise.
\<close>

record ('t, 'v) DataFrameTransformer =
  tr_state :: 't
  tr_fit :: "'t \<Rightarrow> 'v DataFrame \<Rightarrow> error + 't"
  tr_apply :: "'t \<Rightarrow> 'v DataFrame \<Rightarrow> error + 'v DataFrame"

definition RuleBasedDataFrameTransformer ::
  "'t \<Rightarrow> ('t \<Rightarrow> 'v DataFrame \<Rightarrow> error + 'v DataFrame) \<Rightarrow> ('t, 'v) DataFrameTransformer" where
  "RuleBasedDataFrameTransformer s ap = \<lparr>tr_state = s, tr_fit = (\<lambda>s df. Inr s), tr_apply = ap\<rparr>"

text \<open>
  Transformers are objects: a model's lists hold references to them, the same object may
  be in several lists (and in several models), and \<^verbatim>\<open>fit\<close> mutates the object. The store
  maps a reference to the object it denotes.
\<close>

type_synonym ref = nat
type_synonym ('t, 'v) store = "ref \<Rightarrow> ('t, 'v) DataFrameTransformer"

text \<open>
  \<^verbatim>\<open>_applyTransformers(df, transformers, fit)\<close>: the result, and the store as the call
  leaves it (fitted up to the point where it returned or raised).
\<close>

fun applyTransformers ::
  "'v DataFrame \<Rightarrow> ref list \<Rightarrow> bool \<Rightarrow> ('t, 'v) store \<Rightarrow> (error + 'v DataFrame) \<times> ('t, 'v) store" where
  "applyTransformers df [] fit h = (Inr df, h)"
| "applyTransformers df (r # rs) fit h =
     (case (if fit
            then (case tr_fit (h r) (tr_state (h r)) df of
                    Inl e \<Rightarrow> Inl e
                  | Inr s' \<Rightarrow> Inr (h(r := (h r)\<lparr>tr_state := s'\<rparr>)))
            else Inr h) of
        Inl e \<Rightarrow> (Inl e, h)
      | Inr h' \<Rightarrow>
          (case tr_apply (h' r) (tr_state (h' r)) df of
             Inl e \<Rightarrow> (Inl e, h')
           | Inr df' \<Rightarrow> applyTransformers df' rs fit h'))"

text \<open>
  The fields of \<^verbatim>\<open>VectorModel\<close> (without the leading underscore), and \<open>impl\<close>: the state
  a subclass adds. The abstract \<^verbatim>\<open>_fit\<close> and \<^verbatim>\<open>_predict\<close> are parameters of \<open>fit\<close> and
  \<open>predict\<close>; they read the model and \<^verbatim>\<open>_fit\<close> returns the subclass state it leaves.
\<close>

record ('s, 'v) VectorModel =
  inputTransformers :: "ref list"
  outputTransformers :: "ref list"
  trainingOutputTransformers :: "ref list"
  predictedVariableNames :: "string list option"
  modelInputVariableNames :: "string list option"
  modelOutputVariableNames :: "string list option"
  impl :: 's

definition VectorModel_init :: "ref list \<Rightarrow> ref list \<Rightarrow> ref list \<Rightarrow> 's \<Rightarrow> ('s, 'v) VectorModel" where
  "VectorModel_init its ots tots s =
     \<lparr>inputTransformers = its, outputTransformers = ots, trainingOutputTransformers = tots,
      predictedVariableNames = None, modelInputVariableNames = None,
      modelOutputVariableNames = None, impl = s\<rparr>"

definition getPredictedVariableNames :: "('s, 'v) VectorModel \<Rightarrow> string list option" where
  "getPredictedVariableNames self = predictedVariableNames self"

definition getModelOutputVariableNames :: "('s, 'v) VectorModel \<Rightarrow> string list option" where
  "getModelOutputVariableNames self = modelOutputVariableNames self"

definition applyInputTransformers ::
  "('s, 'v) VectorModel \<Rightarrow> 'v DataFrame \<Rightarrow> bool \<Rightarrow> ('t, 'v) store
     \<Rightarrow> (error + 'v DataFrame) \<times> ('t, 'v) store" where
  "applyInputTransformers self X fit h = applyTransformers X (inputTransformers self) fit h"

definition checkAndTransformInputs ::
  "('s, 'v) VectorModel \<Rightarrow> 'v DataFrame \<Rightarrow> ('t, 'v) store \<Rightarrow> error + 'v DataFrame" where
  "checkAndTransformInputs self x h =
     (case fst (applyInputTransformers self x False h) of
        Inl e \<Rightarrow> Inl e
      | Inr x' \<Rightarrow>
          if getPredictedVariableNames self = None
            then Inl (Exception ''Cannot obtain predictions from non-trained model'')
          else if Some (columns x') \<noteq> modelInputVariableNames self
            then Inl (Exception ''Inadmissible input data frame'')
          else Inr x')"

text \<open>
  \<open>predict\<close> applies transformers without fitting them, which leaves the store as it is;
  it returns the result only.
\<close>

definition predict ::
  "(('s, 'v) VectorModel \<Rightarrow> 'v DataFrame \<Rightarrow> error + 'v DataFrame)
     \<Rightarrow> ('s, 'v) VectorModel \<Rightarrow> 'v DataFrame \<Rightarrow> ('t, 'v) store \<Rightarrow> error + 'v DataFrame" where
  "predict predict_impl self x h =
     (case checkAndTransformInputs self x h of
        Inl e \<Rightarrow> Inl e
      | Inr x' \<Rightarrow>
          (case predict_impl self x' of
             Inl e \<Rightarrow> Inl e
           | Inr y \<Rightarrow>
               (case set_index y (index x') of
                  Inl e \<Rightarrow> Inl e
                | Inr y' \<Rightarrow> fst (applyTransformers y' (outputTransformers self) False h))))"

text \<open>
  \<open>fit\<close> returns the error it raised, if any, and the model and the store as the call
  leaves them: what was assigned or fitted before a \<^verbatim>\<open>raise\<close> stays so.
\<close>

definition fit ::
  "(('s, 'v) VectorModel \<Rightarrow> 'v DataFrame \<Rightarrow> 'v DataFrame \<Rightarrow> error option \<times> 's)
     \<Rightarrow> ('s, 'v) VectorModel \<Rightarrow> 'v DataFrame \<Rightarrow> 'v DataFrame \<Rightarrow> ('t, 'v) store
     \<Rightarrow> error option \<times> ('s, 'v) VectorModel \<times> ('t, 'v) store" where
  "fit fit_impl self X Y h =
     (let self1 = self\<lparr>predictedVariableNames := Some (columns Y)\<rparr> in
      (case applyInputTransformers self1 X True h of
         (Inl e, h1) \<Rightarrow> (Some e, self1, h1)
       | (Inr X', h1) \<Rightarrow>
           (case applyTransformers Y (trainingOutputTransformers self1) True h1 of
              (Inl e, h2) \<Rightarrow> (Some e, self1, h2)
            | (Inr Y', h2) \<Rightarrow>
                (let self2 = self1\<lparr>modelInputVariableNames := Some (columns X'),
                                   modelOutputVariableNames := Some (columns Y')\<rparr>
                 in (case fit_impl self2 X' Y' of
                       (r, s') \<Rightarrow> (r, self2\<lparr>impl := s'\<rparr>, h2))))))"

subsection \<open>VectorClassificationModel\<close>

text \<open>
  What \<^verbatim>\<open>VectorClassificationModel\<close> adds to the model: \<^verbatim>\<open>_labels\<close>, and the state of
  the concrete classifier. \<^verbatim>\<open>str\<close> on cell values and the abstract \<^verbatim>\<open>_fitClassifier\<close>
  are parameters.
\<close>

record 'c ClassificationState =
  labels :: "string list option"
  classifier :: 'c

definition VectorClassificationModel_init ::
  "ref list \<Rightarrow> 'c \<Rightarrow> ('c ClassificationState, 'v) VectorModel" where
  "VectorClassificationModel_init its c =
     VectorModel_init its [] [] \<lparr>labels = None, classifier = c\<rparr>"

definition VectorClassificationModel_fit ::
  "('v \<Rightarrow> string)
     \<Rightarrow> (('c ClassificationState, 'v) VectorModel \<Rightarrow> 'v DataFrame \<Rightarrow> 'v DataFrame
           \<Rightarrow> error option \<times> 'c)
     \<Rightarrow> ('c ClassificationState, 'v) VectorModel \<Rightarrow> 'v DataFrame \<Rightarrow> 'v DataFrame
     \<Rightarrow> error option \<times> 'c ClassificationState" where
  "VectorClassificationModel_fit str fitClassifier self X Y =
     (case iloc_col Y 0 of
        Inl e \<Rightarrow> (Some e, impl self)
      | Inr col \<Rightarrow>
          (let self' = self\<lparr>impl := (impl self)\<lparr>labels := Some (map str (unique col))\<rparr>\<rparr>
           in (case fitClassifier self' X Y of
                 (r, c') \<Rightarrow> (r, (impl self')\<lparr>classifier := c'\<rparr>))))"

text \<open>
  The label list of the claim about classification, in the spec's words: the sorted set
  of unique stringified values.
\<close>

definition spec_sorted_labels :: "('v \<Rightarrow> string) \<Rightarrow> 'v list \<Rightarrow> string list" where
  "spec_sorted_labels str col = sort (remdups (map str col))"

section \<open>Auxiliary definitions for the statements\<close>

text \<open>
  \<^verbatim>\<open>pd.DataFrame({name: vals})\<close>, as the test fixture builds its output frame: one column,
  rows labelled \<open>0, 1, \<dots>\<close>.
\<close>

definition DataFrame_of_column :: "string \<Rightarrow> 'v list \<Rightarrow> 'v DataFrame" where
  "DataFrame_of_column name vals =
     \<lparr>columns = [name], rows = zip (map int [0..<length vals]) (map (\<lambda>v. [v]) vals)\<rparr>"

text \<open>What \<open>filterIndices\<close> returns on a valid instance for admissible positions.\<close>

definition select_rows :: "'v InputOutputData \<Rightarrow> nat list \<Rightarrow> 'v InputOutputData" where
  "select_rows d xs =
     \<lparr>inputs = (inputs d)\<lparr>rows := map (\<lambda>i. rows (inputs d) ! i) xs\<rparr>,
      outputs = (outputs d)\<lparr>rows := map (\<lambda>i. rows (outputs d) ! i) xs\<rparr>\<rparr>"

text \<open>The evaluator the cross-validator builds for fold \<open>i\<close>.\<close>

definition fold_evaluator ::
  "'v InputOutputData \<Rightarrow> nat list \<Rightarrow> int \<Rightarrow> int \<Rightarrow> 'v VectorModelEvaluator" where
  "fold_evaluator d p m i =
     \<lparr>testFraction = None, trainingData = select_rows d (fold_trainIndices p m i),
      testData = select_rows d (fold_testIndices p m i)\<rparr>"

section \<open>Instances used in the examples\<close>

text \<open>Generators: one ignores the seed, one reverses for the seed 42 only.\<close>

definition reversing_permutation :: rng where
  "reversing_permutation randomSeed n = rev [0..<n]"


definition five_rows :: "int InputOutputData" where
  "five_rows = \<lparr>inputs = DataFrame_of_column ''x'' [10, 11, 12, 13, 14],
                 outputs = DataFrame_of_column ''y'' [20, 21, 22, 23, 24]\<rparr>"

definition five_other_rows :: "int InputOutputData" where
  "five_other_rows = \<lparr>inputs = DataFrame_of_column ''x'' [1, 1, 1, 1, 1],
                       outputs = DataFrame_of_column ''y'' [0, 0, 0, 0, 0]\<rparr>"

text \<open>The doubles that the Python literals \<^verbatim>\<open>0.6\<close> and \<^verbatim>\<open>0.58\<close> denote.\<close>

definition float_0_6 :: rat where
  "float_0_6 = 5404319552844595 / 9007199254740992"

definition float_0_58 :: rat where
  "float_0_58 = 5224175567749775 / 9007199254740992"

text \<open>Predictors: one adds a column, one doubles every cell, one sums each row.\<close>

definition widening_predictor :: "int PredictorModel" where
  "widening_predictor =
     \<lparr>pm_predict = (\<lambda>df. Inr (df\<lparr>columns := ''extra'' # columns df,
                                    rows := map (\<lambda>r. (fst r, 0 # snd r)) (rows df)\<rparr>)),
      pm_getPredictedVariableNames = Some [''extra'', ''x'']\<rparr>"

definition doubling_predictor :: "int PredictorModel" where
  "doubling_predictor =
     \<lparr>pm_predict = (\<lambda>df. Inr (df\<lparr>rows := map (\<lambda>r. (fst r, map (\<lambda>v. 2 * v) (snd r))) (rows df)\<rparr>)),
      pm_getPredictedVariableNames = Some [''x'']\<rparr>"

definition summing_predictor :: "int PredictorModel" where
  "summing_predictor =
     \<lparr>pm_predict = (\<lambda>df. Inr \<lparr>columns = [''y''],
                                 rows = map (\<lambda>r. (fst r, [sum_list (snd r)])) (rows df)\<rparr>),
      pm_getPredictedVariableNames = Some [''y'']\<rparr>"

text \<open>
  Transformer objects: a rule-based one that renames every column, one whose \<^verbatim>\<open>fit\<close>
  remembers the columns it saw and whose \<^verbatim>\<open>apply\<close> names the columns after them, and
  stores holding them. Implementations of the abstract methods: a \<^verbatim>\<open>_fit\<close> and a
  \<^verbatim>\<open>_fitClassifier\<close> that do nothing, a \<^verbatim>\<open>_predict\<close> that sums each row into a column
  \<open>y\<close>, and one that returns a frame without rows.
\<close>

definition renaming_transformer :: "(string list, int) DataFrameTransformer" where
  "renaming_transformer =
     RuleBasedDataFrameTransformer []
       (\<lambda>s df. Inr (df\<lparr>columns := map (\<lambda>c. c @ ''_scaled'') (columns df)\<rparr>))"

definition remembering_transformer :: "(string list, int) DataFrameTransformer" where
  "remembering_transformer =
     \<lparr>tr_state = [], tr_fit = (\<lambda>s df. Inr (columns df)),
      tr_apply = (\<lambda>s df. Inr (df\<lparr>columns := map (\<lambda>c. c @ ''_of_'' @ concat s) (columns df)\<rparr>))\<rparr>"

definition renaming_store :: "(string list, int) store" where
  "renaming_store r = renaming_transformer"

definition remembering_store :: "(string list, int) store" where
  "remembering_store r = remembering_transformer"

definition no_op_fit ::
  "(unit, int) VectorModel \<Rightarrow> int DataFrame \<Rightarrow> int DataFrame \<Rightarrow> error option \<times> unit" where
  "no_op_fit self X Y = (None, ())"

definition row_sum_predict ::
  "(unit, int) VectorModel \<Rightarrow> int DataFrame \<Rightarrow> error + int DataFrame" where
  "row_sum_predict self x =
     Inr \<lparr>columns = [''y''], rows = map (\<lambda>r. (0, [sum_list (snd r)])) (rows x)\<rparr>"

definition no_rows_predict ::
  "(unit, int) VectorModel \<Rightarrow> int DataFrame \<Rightarrow> error + int DataFrame" where
  "no_rows_predict self x = Inr \<lparr>columns = [''y''], rows = []\<rparr>"

definition no_op_fitClassifier ::
  "(unit ClassificationState, string) VectorModel \<Rightarrow> string DataFrame \<Rightarrow> string DataFrame
     \<Rightarrow> error option \<times> unit" where
  "no_op_fitClassifier self X Y = (None, ())"

definition str_of_string :: "string \<Rightarrow> string" where
  "str_of_string v = v"

definition string_store :: "(unit, string) store" where
  "string_store r = RuleBasedDataFrameTransformer () (\<lambda>s df. Inr df)"

section \<open>Properties of InputOutputData\<close>

lemma len_iloc: "iloc df indices = Inr df' \<Longrightarrow> len_df df' = length indices"
  by (auto simp: iloc_def len_df_def split: if_splits)

lemma columns_iloc: "iloc df indices = Inr df' \<Longrightarrow> columns df' = columns df"
  by (auto simp: iloc_def split: if_splits)

lemma iloc_in_range:
  "list_all (iloc_ok (len_df df)) indices \<Longrightarrow>
     iloc df indices = Inr (df\<lparr>rows := map (\<lambda>i. rows df ! iloc_pos (len_df df) i) indices\<rparr>)"
  by (simp add: iloc_def)

lemma init_valid: "InputOutputData_init inp outp = Inr d \<Longrightarrow> valid_data d"
  by (auto simp: InputOutputData_init_def valid_data_def split: if_splits)

lemma filterIndices_valid: "filterIndices d indices = Inr d' \<Longrightarrow> valid_data d'"
  by (auto simp: filterIndices_def split: sum.splits dest: init_valid)

lemma filterIndices_len: "filterIndices d indices = Inr d' \<Longrightarrow> len d' = length indices"
  by (auto simp: filterIndices_def len_def InputOutputData_init_def
      split: sum.splits if_splits dest: len_iloc)

lemma filterIndices_in_range:
  assumes "valid_data d" and "list_all (iloc_ok (len d)) indices"
  shows "filterIndices d indices =
           Inr \<lparr>inputs = (inputs d)\<lparr>rows := map (\<lambda>i. rows (inputs d) ! iloc_pos (len d) i) indices\<rparr>,
                outputs = (outputs d)\<lparr>rows := map (\<lambda>i. rows (outputs d) ! iloc_pos (len d) i) indices\<rparr>\<rparr>"
proof -
  from assms have o: "list_all (iloc_ok (len_df (outputs d))) indices"
    and i: "list_all (iloc_ok (len_df (inputs d))) indices"
    and eq: "len_df (outputs d) = len d"
    by (simp_all add: valid_data_def len_def)
  show ?thesis
    using eq by (simp add: filterIndices_def iloc_in_range [OF i] iloc_in_range [OF o]
        InputOutputData_init_def len_df_def len_def)
qed

text \<open>
  C10. Every successfully constructed InputOutputData has as many input rows as output
  rows; construction fails with ValueError exactly when the counts differ; whatever
  filterIndices returns went through the same constructor, so it satisfies the invariant
  too, and its length is the number of indices; on a valid instance and admissible
  positions filterIndices does return. Hence the length of an instance is the row count
  of either frame.
\<close>

theorem C10_length_invariant:
  "(InputOutputData_init inp outp = Inr d \<longrightarrow>
      len_df (inputs d) = len_df (outputs d) \<and> len d = len_df (outputs d))
   \<and> ((\<exists>d. InputOutputData_init inp outp = Inr d) \<longleftrightarrow> len_df inp = len_df outp)
   \<and> (filterIndices src indices = Inr d' \<longrightarrow>
      len_df (inputs d') = len_df (outputs d') \<and> len d' = len_df (outputs d')
      \<and> len d' = length indices)
   \<and> (valid_data src \<and> list_all (iloc_ok (len src)) indices \<longrightarrow>
      (\<exists>d'. filterIndices src indices = Inr d'))"
proof (intro conjI impI)
  assume a: "InputOutputData_init inp outp = Inr d"
  from init_valid [OF a] show "len_df (inputs d) = len_df (outputs d)"
    by (simp add: valid_data_def)
  from init_valid [OF a] show "len d = len_df (outputs d)"
    by (simp add: valid_data_def len_def)
next
  show "(\<exists>d. InputOutputData_init inp outp = Inr d) \<longleftrightarrow> len_df inp = len_df outp"
    by (simp add: InputOutputData_init_def)
next
  assume a: "filterIndices src indices = Inr d'"
  from filterIndices_valid [OF a] show "len_df (inputs d') = len_df (outputs d')"
    by (simp add: valid_data_def)
  from filterIndices_valid [OF a] show "len d' = len_df (outputs d')"
    by (simp add: valid_data_def len_def)
  from filterIndices_len [OF a] show "len d' = length indices" .
next
  assume "valid_data src \<and> list_all (iloc_ok (len src)) indices"
  then show "\<exists>d'. filterIndices src indices = Inr d'"
    using filterIndices_in_range by blast
qed

theorem C10_length_invariant_witness:
  "InputOutputData_init (inputs five_rows) (outputs five_rows) = Inr five_rows
   \<and> len five_rows = 5
   \<and> filterIndices five_rows [2, - 5]
       = Inr \<lparr>inputs = \<lparr>columns = [''x''], rows = [(2, [12]), (0, [10])]\<rparr>,
              outputs = \<lparr>columns = [''y''], rows = [(2, [22]), (0, [20])]\<rparr>\<rparr>
   \<and> len \<lparr>inputs = \<lparr>columns = [''x''], rows = [(2, [12 :: int]), (0, [10])]\<rparr>,
          outputs = \<lparr>columns = [''y''], rows = [(2, [22]), (0, [20])]\<rparr>\<rparr> = 2
   \<and> InputOutputData_init (DataFrame_of_column ''x'' [1 :: int]) (DataFrame_of_column ''y'' [])
       = Inl (ValueError ''Lengths do not match'')"
proof -
  let ?d' = "\<lparr>inputs = \<lparr>columns = [''x''], rows = [(2, [12 :: int]), (0, [10])]\<rparr>,
          outputs = \<lparr>columns = [''y''], rows = [(2, [22]), (0, [20])]\<rparr>\<rparr>"
  have i: "InputOutputData_init (inputs five_rows) (outputs five_rows) = Inr five_rows"
    by (simp add: InputOutputData_init_def five_rows_def len_df_def DataFrame_of_column_def)
  have f: "filterIndices five_rows [2, - 5] = Inr ?d'"
    by code_simp
  have e: "InputOutputData_init (DataFrame_of_column ''x'' [1 :: int]) (DataFrame_of_column ''y'' [])
       = Inl (ValueError ''Lengths do not match'')"
    by (simp add: InputOutputData_init_def len_df_def DataFrame_of_column_def)
  have l: "len_df (outputs five_rows) = 5" "len_df (outputs ?d') = 2"
    by (simp_all add: five_rows_def len_df_def DataFrame_of_column_def)
  from C10_length_invariant [of "inputs five_rows" "outputs five_rows" five_rows five_rows
      "[2, - 5]" ?d'] i f l
  have "len five_rows = 5" "len ?d' = 2"
    by simp_all
  with i f e show ?thesis by simp
qed

section \<open>Properties of VectorModelEvaluator\<close>

lemma slice_bound_nonneg: "0 \<le> i \<Longrightarrow> slice_bound n i = min n (nat i)"
  by (simp add: slice_bound_def)

lemma slice_bound_int: "slice_bound n (int k) = min n k"
  by (simp add: slice_bound_def)

lemma permutation_of_length: "permutation_of n xs \<Longrightarrow> length xs = n"
  unfolding permutation_of_def
  by (metis card_atLeastLessThan diff_zero distinct_card)

lemma iloc_ok_nat: "i < n \<Longrightarrow> iloc_ok n (int i)"
  by (simp add: iloc_ok_def)

lemma iloc_pos_nat: "iloc_pos n (int i) = i"
  by (simp add: iloc_pos_def)

lemma list_all_iloc_ok:
  "set xs \<subseteq> {0..<n} \<Longrightarrow> list_all (iloc_ok n) (map int xs)"
  by (auto simp: list_all_iff iloc_ok_def)

lemma filterIndices_nat:
  assumes "valid_data d" and "set xs \<subseteq> {0..<len d}"
  shows "filterIndices d (map int xs) =
           Inr \<lparr>inputs = (inputs d)\<lparr>rows := map (\<lambda>i. rows (inputs d) ! i) xs\<rparr>,
                outputs = (outputs d)\<lparr>rows := map (\<lambda>i. rows (outputs d) ! i) xs\<rparr>\<rparr>"
  using filterIndices_in_range [OF assms(1) list_all_iloc_ok [OF assms(2)]]
  by (simp add: iloc_pos_nat comp_def)

lemma filterIndices_select:
  "valid_data d \<Longrightarrow> set xs \<subseteq> {0..<len d} \<Longrightarrow> filterIndices d (map int xs) = Inr (select_rows d xs)"
  by (simp add: filterIndices_nat select_rows_def)

lemma len_select_rows: "len (select_rows d xs) = length xs"
  by (simp add: select_rows_def len_def len_df_def)

lemma round_half_even_nonneg: "0 \<le> q \<Longrightarrow> 0 \<le> round_half_even q"
  by (auto simp: round_half_even_def Let_def)

lemma round_double_nonneg: "0 \<le> x \<Longrightarrow> 0 \<le> round_double x"
  by (auto simp: round_double_def Let_def sgn_if
      intro!: mult_nonneg_nonneg round_half_even_nonneg divide_nonneg_nonneg)

lemma py_trunc_nonneg: "0 \<le> x \<Longrightarrow> py_trunc x = \<lfloor>x\<rfloor>"
  by (simp add: py_trunc_def)

subsection \<open>Rounding to a double\<close>

text \<open>
  \<open>float_exponent x\<close> is the exponent of the binade of \<open>x\<close>; a non-negative value rounds
  to a non-negative one; an integer below \<open>2 ^ 53\<close> is a double, and nothing at or below
  it rounds above it.
\<close>

lemma float_exponent_le:
  assumes "0 < x"
  shows "2 powi (float_exponent x) \<le> x"
proof -
  obtain p q where pq: "quotient_of x = (p, q)" by (cases "quotient_of x")
  have q: "0 < q" using pq by (rule quotient_of_denom_pos)
  have x: "x = of_int p / of_int q" using pq by (rule quotient_of_div)
  have p: "0 < p" using assms q x by (simp add: zero_less_divide_iff)
  let ?e = "bitlen p - bitlen q"
  have bp: "2 ^ nat (bitlen p - 1) \<le> p" and bq: "q < 2 ^ nat (bitlen q)"
    using bitlen_bounds [OF p] bitlen_bounds [OF q] by simp_all
  have b1: "1 \<le> bitlen p" "1 \<le> bitlen q"
    using p q by (simp_all add: bitlen_def floorlog_def)
  have "2 powi (?e - 1) \<le> x"
  proof -
    have "(2 :: rat) powi (?e - 1) = 2 powi (bitlen p - 1) / 2 powi (bitlen q)"
      by (simp add: power_int_diff)
    also have "\<dots> = 2 ^ nat (bitlen p - 1) / 2 ^ nat (bitlen q)"
      using b1 by (simp add: power_int_def)
    also have "\<dots> \<le> of_int p / of_int q"
    proof -
      have "(of_int (2 ^ nat (bitlen p - 1)) :: rat) \<le> of_int p"
        using bp by (simp only: of_int_le_iff)
      then have 1: "(2 :: rat) ^ nat (bitlen p - 1) \<le> of_int p" by simp
      have "(of_int q :: rat) \<le> of_int (2 ^ nat (bitlen q))"
        using bq by (simp only: of_int_le_iff less_imp_le)
      then have 2: "(of_int q :: rat) \<le> 2 ^ nat (bitlen q)" by simp
      have 3: "(0 :: rat) < of_int q" using q by simp
      have 4: "(0 :: rat) \<le> 2 ^ nat (bitlen p - 1)" by simp
      have 5: "(0 :: rat) \<le> of_int p" using p by simp
      from 5 1 3 2 show ?thesis by (rule frac_le)
    qed
    finally show ?thesis by (simp add: x)
  qed
  then show ?thesis
    by (simp add: float_exponent_def pq Let_def)
qed

lemma float_exponent_gt:
  assumes "0 < x"
  shows "x < 2 powi (float_exponent x + 1)"
proof -
  obtain p q where pq: "quotient_of x = (p, q)" by (cases "quotient_of x")
  have q: "0 < q" using pq by (rule quotient_of_denom_pos)
  have x: "x = of_int p / of_int q" using pq by (rule quotient_of_div)
  have p: "0 < p" using assms q x by (simp add: zero_less_divide_iff)
  let ?e = "bitlen p - bitlen q"
  have bp: "p < 2 ^ nat (bitlen p)" and bq: "2 ^ nat (bitlen q - 1) \<le> q"
    using bitlen_bounds [OF p] bitlen_bounds [OF q] by simp_all
  have b1: "1 \<le> bitlen p" "1 \<le> bitlen q"
    using p q by (simp_all add: bitlen_def floorlog_def)
  have "x < 2 powi (?e + 1)"
  proof -
    have "(of_int p :: rat) < of_int (2 ^ nat (bitlen p))"
      using bp by (simp only: of_int_less_iff)
    then have 1: "(of_int p :: rat) < 2 ^ nat (bitlen p)" by simp
    have "(of_int (2 ^ nat (bitlen q - 1)) :: rat) \<le> of_int q"
      using bq by (simp only: of_int_le_iff)
    then have 2: "(2 :: rat) ^ nat (bitlen q - 1) \<le> of_int q" by simp
    have 3: "(0 :: rat) < 2 ^ nat (bitlen q - 1)" by simp
    have 4: "(0 :: rat) \<le> of_int p" using p by simp
    have "of_int p / of_int q < (2 :: rat) ^ nat (bitlen p) / 2 ^ nat (bitlen q - 1)"
      using 4 1 3 2 by (rule frac_less)
    also have "\<dots> = 2 powi (bitlen p) / 2 powi (bitlen q - 1)"
      using b1 by (simp add: power_int_def)
    also have "\<dots> = 2 powi (bitlen p - (bitlen q - 1))"
      by (simp add: power_int_diff)
    also have "bitlen p - (bitlen q - 1) = ?e + 1" by simp
    finally show ?thesis by (simp add: x)
  qed
  then show ?thesis
    by (auto simp: float_exponent_def pq Let_def not_le)
qed

lemma float_exponent_lt_53:
  assumes "0 < x" and "x < 2 ^ 53"
  shows "float_exponent x \<le> 52"
proof -
  have "(2 :: rat) powi (float_exponent x) < 2 powi 53"
    using float_exponent_le [OF assms(1)] assms(2) by simp
  then have "float_exponent x < 53"
    by (rule power_int_le_imp_less_exp [rotated]) simp_all
  then show ?thesis by simp
qed

lemma round_half_even_le:
  assumes "q \<le> of_int m"
  shows "round_half_even q \<le> m"
proof (cases "q = of_int \<lfloor>q\<rfloor>")
  case True
  then have "round_half_even q = \<lfloor>q\<rfloor>" by (simp add: round_half_even_def Let_def)
  moreover have "\<lfloor>q\<rfloor> \<le> m" using assms by (simp add: floor_le_iff)
  ultimately show ?thesis by simp
next
  case False
  then have "of_int \<lfloor>q\<rfloor> < q"
    by (metis of_int_floor_le order.not_eq_order_implies_strict)
  then have "of_int \<lfloor>q\<rfloor> < (of_int m :: rat)" using assms by simp
  then have "\<lfloor>q\<rfloor> < m" by (simp only: of_int_less_iff)
  then have "\<lfloor>q\<rfloor> + 1 \<le> m" by simp
  moreover have "round_half_even q \<le> \<lfloor>q\<rfloor> + 1"
    by (simp add: round_half_even_def Let_def)
  ultimately show ?thesis by simp
qed

lemma round_half_even_of_int [simp]: "round_half_even (of_int m) = m"
  by (simp add: round_half_even_def)

lemma ulp_inverse_int:
  assumes "0 < x" and "x < 2 ^ 53"
  shows "\<exists>j. 1 / (2 :: rat) powi (max (float_exponent x) (- 1022) - 52) = 2 ^ j"
proof -
  let ?e = "max (float_exponent x) (- 1022) - 52"
  have "?e \<le> 0" using float_exponent_lt_53 [OF assms] by simp
  then have "(2 :: rat) powi ?e = 1 / 2 ^ nat (- ?e)"
    by (cases "?e = 0") (simp_all add: power_int_def field_simps)
  then show ?thesis by auto
qed

lemma round_double_le_nat:
  assumes "0 \<le> x" and "x \<le> of_nat n" and "n < 2 ^ 53"
  shows "round_double x \<le> of_nat n"
proof (cases "x = 0")
  case True
  then show ?thesis by (simp add: round_double_def)
next
  case False
  with assms(1) have x: "0 < x" by simp
  have "(of_nat n :: rat) < 2 ^ 53"
    using assms(3) by (simp only: of_nat_less_numeral_power_cancel_iff)
  with assms(2) have "x < 2 ^ 53" by (rule le_less_trans)
  from ulp_inverse_int [OF x this] obtain j where
    j: "1 / (2 :: rat) powi (max (float_exponent x) (- 1022) - 52) = 2 ^ j" by blast
  let ?u = "(2 :: rat) powi (max (float_exponent x) (- 1022) - 52)"
  have u: "0 < ?u" by simp
  have "x / ?u \<le> of_nat n / ?u" using assms(2) u by (simp add: divide_right_mono)
  also have "of_nat n / ?u = of_nat n * (1 / ?u)" by simp
  also have "\<dots> = of_nat n * 2 ^ j" by (simp only: j)
  also have "\<dots> = of_int (int n * 2 ^ j)" by simp
  finally have "round_half_even (x / ?u) \<le> int n * 2 ^ j" by (rule round_half_even_le)
  then have "(of_int (round_half_even (x / ?u)) :: rat) \<le> of_int (int n * 2 ^ j)"
    by (simp only: of_int_le_iff)
  then have "of_int (round_half_even (x / ?u)) * ?u \<le> of_int (int n * 2 ^ j) * ?u"
    using u by (simp add: mult_right_mono)
  also have "of_int (int n * 2 ^ j) * ?u = of_nat n * (2 ^ j * ?u)" by simp
  also have "2 ^ j * ?u = 1" using j u by (simp add: field_simps)
  finally show ?thesis
    using x by (simp add: round_double_def Let_def)
qed

lemma round_double_of_nat:
  assumes "n < 2 ^ 53"
  shows "round_double (of_nat n) = of_nat n"
proof (cases "n = 0")
  case True
  then show ?thesis by (simp add: round_double_def)
next
  case False
  then have x: "0 < (of_nat n :: rat)" by simp
  have "(of_nat n :: rat) < 2 ^ 53"
    using assms by (simp only: of_nat_less_numeral_power_cancel_iff)
  from ulp_inverse_int [OF x this] obtain j where
    j: "1 / (2 :: rat) powi (max (float_exponent (of_nat n)) (- 1022) - 52) = 2 ^ j" by blast
  let ?u = "(2 :: rat) powi (max (float_exponent (of_nat n)) (- 1022) - 52)"
  have u: "0 < ?u" by simp
  have "of_nat n / ?u = of_nat n * (1 / ?u)" by simp
  also have "\<dots> = of_nat n * 2 ^ j" by (simp only: j)
  also have "\<dots> = of_int (int n * 2 ^ j)" by simp
  finally have q: "of_nat n / ?u = of_int (int n * 2 ^ j)" .
  have "2 ^ j * ?u = 1" using j u by (simp add: field_simps)
  then have "of_int (int n * 2 ^ j) * ?u = of_nat n"
    by (simp add: mult.assoc)
  then show ?thesis
    using x by (simp add: round_double_def Let_def q del: of_int_mult of_int_power)
qed

lemma float_product_le:
  assumes "0 \<le> y" and "y \<le> 1" and "n < 2 ^ 53"
  shows "\<lfloor>round_double (round_double (of_nat n) * y)\<rfloor> \<le> int n"
proof -
  have "of_nat n * y \<le> (of_nat n :: rat) * 1" using assms(1,2) by (intro mult_left_mono) simp_all
  then have "round_double (of_nat n * y) \<le> of_nat n"
    using assms by (intro round_double_le_nat) simp_all
  then have "\<lfloor>round_double (of_nat n * y)\<rfloor> \<le> \<lfloor>(of_nat n :: rat)\<rfloor>" by (rule floor_mono)
  then show ?thesis by (simp add: round_double_of_nat [OF assms(3)])
qed

subsection \<open>The split\<close>

lemma splitIndex_in_unit_interval:
  assumes "in_unit_interval tf"
  shows "\<exists>k. splitIndex n tf = Inr k \<and> 0 \<le> k"
proof (cases tf)
  case (PyInt j)
  with assms show ?thesis
    by (simp add: splitIndex_def py_mul_nat_def py_int_def in_unit_interval_def)
next
  case (PyFloat y)
  with assms have "0 \<le> y" by (simp add: in_unit_interval_def)
  then have "0 \<le> round_double (round_double (of_nat n) * y)"
    by (intro round_double_nonneg mult_nonneg_nonneg) simp_all
  with PyFloat show ?thesis
    by (simp add: splitIndex_def py_mul_nat_def py_int_def py_trunc_nonneg)
next
  case PyFloatNaN
  with assms show ?thesis by (simp add: in_unit_interval_def)
next
  case (PyFloatInf pos)
  with assms show ?thesis by (simp add: in_unit_interval_def)
qed

lemma splitIndex_PyInt: "splitIndex n (PyInt j) = Inr (int n * j)"
  by (simp add: splitIndex_def py_mul_nat_def py_int_def)

lemma split_indices_facts:
  assumes "permutation_of n p"
  shows "set (trainingIndices p k) \<inter> set (testIndices p k) = {}"
    and "set (trainingIndices p k) \<union> set (testIndices p k) = {0..<n}"
    and "distinct (trainingIndices p k)"
    and "distinct (testIndices p k)"
    and "length (trainingIndices p k) + length (testIndices p k) = n"
    and "0 \<le> k \<Longrightarrow> int (length (testIndices p k)) = min (int n) k"
proof -
  let ?m = "slice_bound (length p) k"
  have lp: "length p = n" using assms by (rule permutation_of_length)
  have dp: "distinct p" and sp: "set p = {0..<n}"
    using assms by (simp_all add: permutation_of_def)
  have tr: "trainingIndices p k = drop ?m p" and te: "testIndices p k = take ?m p"
    by (simp_all add: trainingIndices_def testIndices_def slice_from_def slice_to_def)
  have m: "?m \<le> n" by (auto simp: slice_bound_def lp)
  show "set (trainingIndices p k) \<union> set (testIndices p k) = {0..<n}"
    unfolding tr te using sp by (metis Un_commute append_take_drop_id set_append)
  show "set (trainingIndices p k) \<inter> set (testIndices p k) = {}"
    unfolding tr te using dp by (metis Int_commute order_refl set_take_disj_set_drop_if_distinct)
  show "length (trainingIndices p k) + length (testIndices p k) = n"
    unfolding tr te using lp m by simp
  show "distinct (trainingIndices p k)" "distinct (testIndices p k)"
    unfolding tr te using dp by simp_all
  show "int (length (testIndices p k)) = min (int n) k" if "0 \<le> k"
    unfolding te using lp that by (auto simp: slice_bound_nonneg min_def)
qed

lemma evaluator_init_fraction:
  assumes "valid_data d" and "in_unit_interval tf" and "valid_seed randomSeed"
    and "permutation_of (len d) (permutation randomSeed (len d))"
    and "splitIndex (len d) tf = Inr k"
  shows "VectorModelEvaluator_init permutation d (Some tf) None randomSeed
      = Inr \<lparr>testFraction = Some tf,
             trainingData = select_rows d (trainingIndices (permutation randomSeed (len d)) k),
             testData = select_rows d (testIndices (permutation randomSeed (len d)) k)\<rparr>"
    and "filterIndices d (map int (trainingIndices (permutation randomSeed (len d)) k))
      = Inr (select_rows d (trainingIndices (permutation randomSeed (len d)) k))"
    and "filterIndices d (map int (testIndices (permutation randomSeed (len d)) k))
      = Inr (select_rows d (testIndices (permutation randomSeed (len d)) k))"
proof -
  let ?p = "permutation randomSeed (len d)"
  have un: "set (trainingIndices ?p k) \<union> set (testIndices ?p k) = {0..<len d}"
    using assms(4) by (rule split_indices_facts(2))
  show ftr: "filterIndices d (map int (trainingIndices ?p k)) = Inr (select_rows d (trainingIndices ?p k))"
    using un by (intro filterIndices_select assms(1)) blast
  show fte: "filterIndices d (map int (testIndices ?p k)) = Inr (select_rows d (testIndices ?p k))"
    using un by (intro filterIndices_select assms(1)) blast
  show "VectorModelEvaluator_init permutation d (Some tf) None randomSeed
      = Inr \<lparr>testFraction = Some tf, trainingData = select_rows d (trainingIndices ?p k),
             testData = select_rows d (testIndices ?p k)\<rparr>"
    using assms(2,3,5)
    by (simp add: VectorModelEvaluator_init_def RandomState_permutation_def Let_def ftr fte)
qed

text \<open>
  C5, as the code has it. For a valid dataset, a test fraction in \<open>[0, 1]\<close>, a seed numpy
  accepts and a permutation of the row positions, the constructor returns an evaluator
  whose training and test data are the rows at \<open>trainingIndices\<close> and \<open>testIndices\<close>; the
  two index lists have no position in common, together they are all positions
  \<open>0..<len d\<close>, neither repeats a position, the two lengths sum to \<open>len d\<close>, and the test
  data has \<open>min (len d) k\<close> rows, where \<open>k\<close> is \<^verbatim>\<open>int(numDataPoints * testFraction)\<close> as Python
  computes it, and exactly \<open>k\<close> rows when there are fewer than \<open>2 ^ 53\<close> rows: for an
  \<^verbatim>\<open>int\<close> fraction \<open>k\<close> is \<open>floor (len d * tf)\<close>, for a float it is the truncation of
  the rounded double product.
\<close>

theorem C5_split_partition:
  assumes "valid_data d" and "in_unit_interval tf" and "valid_seed randomSeed"
    and "permutation_of (len d) (permutation randomSeed (len d))"
  shows "\<exists>ev k. VectorModelEvaluator_init permutation d (Some tf) None randomSeed = Inr ev
     \<and> splitIndex (len d) tf = Inr k \<and> 0 \<le> k
     \<and> filterIndices d (map int (trainingIndices (permutation randomSeed (len d)) k))
         = Inr (trainingData ev)
     \<and> filterIndices d (map int (testIndices (permutation randomSeed (len d)) k))
         = Inr (testData ev)
     \<and> set (trainingIndices (permutation randomSeed (len d)) k)
         \<inter> set (testIndices (permutation randomSeed (len d)) k) = {}
     \<and> set (trainingIndices (permutation randomSeed (len d)) k)
         \<union> set (testIndices (permutation randomSeed (len d)) k) = {0..<len d}
     \<and> distinct (trainingIndices (permutation randomSeed (len d)) k)
     \<and> distinct (testIndices (permutation randomSeed (len d)) k)
     \<and> len (trainingData ev) + len (testData ev) = len d
     \<and> int (len (testData ev)) = min (int (len d)) k
     \<and> (len d < 2 ^ 53 \<longrightarrow> int (len (testData ev)) = k)
     \<and> (\<forall>j. tf = PyInt j \<longrightarrow> int (len (testData ev)) = \<lfloor>of_nat (len d) * (of_int j :: rat)\<rfloor>)
     \<and> (\<forall>y. tf = PyFloat y \<longrightarrow>
           k = \<lfloor>round_double (round_double (of_nat (len d)) * y)\<rfloor>)"
proof -
  from splitIndex_in_unit_interval [OF assms(2), of "len d"] obtain k where
    k: "splitIndex (len d) tf = Inr k" "0 \<le> k"
    by blast
  note i = evaluator_init_fraction [of d tf randomSeed permutation k, OF assms k(1)]
  note f = split_indices_facts [of "len d" "permutation randomSeed (len d)" k, OF assms(4)]
  have int_case: "int (length (testIndices (permutation randomSeed (len d)) k))
      = \<lfloor>of_nat (len d) * (of_int j :: rat)\<rfloor>" if "tf = PyInt j" for j
  proof -
    from that assms(2) have j: "0 \<le> j" "j \<le> 1" by (simp_all add: in_unit_interval_def)
    from that k(1) have kj: "k = int (len d) * j" by (simp add: splitIndex_PyInt)
    have "int (len d) * j \<le> int (len d) * 1" using j by (intro mult_left_mono) simp_all
    then have "min (int (len d)) k = k" using kj by simp
    moreover have "\<lfloor>of_nat (len d) * (of_int j :: rat)\<rfloor> = int (len d) * j"
      by (metis floor_of_int of_int_mult of_int_of_nat_eq)
    ultimately show ?thesis using f(6) [OF k(2)] kj by simp
  qed
  have float_case: "k = \<lfloor>round_double (round_double (of_nat (len d)) * y)\<rfloor>"
    if "tf = PyFloat y" for y
  proof -
    from that assms(2) have "0 \<le> y" by (simp add: in_unit_interval_def)
    then have "0 \<le> round_double (round_double (of_nat (len d)) * y)"
      by (intro round_double_nonneg mult_nonneg_nonneg) simp_all
    with that k(1) show ?thesis
      by (simp add: splitIndex_def py_mul_nat_def py_int_def py_trunc_nonneg)
  qed
  have small: "int (length (testIndices (permutation randomSeed (len d)) k)) = k"
    if n: "len d < 2 ^ 53"
  proof -
    have "k \<le> int (len d)"
    proof (cases tf)
      case (PyInt j)
      from PyInt assms(2) have j: "0 \<le> j" "j \<le> 1" by (simp_all add: in_unit_interval_def)
      have "int (len d) * j \<le> int (len d) * 1" using j by (intro mult_left_mono) simp_all
      with PyInt k(1) show ?thesis by (simp add: splitIndex_PyInt)
    next
      case (PyFloat y)
      from PyFloat assms(2) have y: "0 \<le> y" "y \<le> 1" by (simp_all add: in_unit_interval_def)
      from float_case [OF PyFloat] float_product_le [OF y n] show ?thesis by simp
    next
      case PyFloatNaN
      with assms(2) show ?thesis by (simp add: in_unit_interval_def)
    next
      case (PyFloatInf pos)
      with assms(2) show ?thesis by (simp add: in_unit_interval_def)
    qed
    with f(6) [OF k(2)] show ?thesis by simp
  qed
  show ?thesis
    unfolding i(1) using i(2,3) f(1-5) f(6) [OF k(2)] k int_case float_case small
    by (simp add: len_select_rows)
qed

text \<open>
  Five rows with the float \<^verbatim>\<open>0.6\<close> under the reversing permutation: three test rows.
\<close>

theorem C5_split_partition_witness:
  "VectorModelEvaluator_init reversing_permutation five_rows (Some (PyFloat float_0_6)) None 42
    = Inr \<lparr>testFraction = Some (PyFloat float_0_6),
           trainingData = \<lparr>inputs = \<lparr>columns = [''x''], rows = [(1, [11]), (0, [10])]\<rparr>,
                           outputs = \<lparr>columns = [''y''], rows = [(1, [21]), (0, [20])]\<rparr>\<rparr>,
           testData = \<lparr>inputs = \<lparr>columns = [''x''], rows = [(4, [14]), (3, [13]), (2, [12])]\<rparr>,
                       outputs = \<lparr>columns = [''y''], rows = [(4, [24]), (3, [23]), (2, [22])]\<rparr>\<rparr>\<rparr>
   \<and> splitIndex 5 (PyFloat float_0_6) = Inr 3
   \<and> trainingIndices (reversing_permutation 42 5) 3 = [1, 0]
   \<and> testIndices (reversing_permutation 42 5) 3 = [4, 3, 2]"
proof -
  have v: "valid_data five_rows"
    by (simp add: valid_data_def five_rows_def len_df_def DataFrame_of_column_def)
  have p: "permutation_of (len five_rows) (reversing_permutation 42 (len five_rows))"
    by (simp add: permutation_of_def reversing_permutation_def)
  have f: "in_unit_interval (PyFloat float_0_6)"
    by (simp add: in_unit_interval_def float_0_6_def)
  have s: "valid_seed 42" by (simp add: valid_seed_def)
  have k: "splitIndex 5 (PyFloat float_0_6) = Inr 3"
    by code_simp
  have tr: "trainingIndices (reversing_permutation 42 5) 3 = [1, 0]"
    by code_simp
  have te: "testIndices (reversing_permutation 42 5) 3 = [4, 3, 2]"
    by code_simp
  from C5_split_partition [where d = five_rows and tf = "PyFloat float_0_6"
      and permutation = reversing_permutation and randomSeed = 42, OF v f s p]
  obtain ev where
    ev: "VectorModelEvaluator_init reversing_permutation five_rows (Some (PyFloat float_0_6)) None 42
           = Inr ev"
    by blast
  have "VectorModelEvaluator_init reversing_permutation five_rows (Some (PyFloat float_0_6)) None 42
    = Inr \<lparr>testFraction = Some (PyFloat float_0_6),
           trainingData = \<lparr>inputs = \<lparr>columns = [''x''], rows = [(1, [11]), (0, [10])]\<rparr>,
                           outputs = \<lparr>columns = [''y''], rows = [(1, [21]), (0, [20])]\<rparr>\<rparr>,
           testData = \<lparr>inputs = \<lparr>columns = [''x''], rows = [(4, [14]), (3, [13]), (2, [12])]\<rparr>,
                       outputs = \<lparr>columns = [''y''], rows = [(4, [24]), (3, [23]), (2, [22])]\<rparr>\<rparr>\<rparr>"
    by code_simp
  with ev k tr te show ?thesis by simp
qed

text \<open>
  The claim that the test set has \<open>floor (len D * testFraction)\<close> rows fails for floats.
  With five rows and the float \<^verbatim>\<open>0.6\<close> the test data has three rows, and the floor of
  five times the float's value is two. With fifty rows and the float \<^verbatim>\<open>0.58\<close> the split
  index is 28, and the floor of fifty times 58/100 is 29.
\<close>

theorem C5_floor_counterexample:
  "len five_rows = 5
   \<and> in_unit_interval (PyFloat float_0_6)
   \<and> VectorModelEvaluator_init reversing_permutation five_rows (Some (PyFloat float_0_6)) None 42
    = Inr \<lparr>testFraction = Some (PyFloat float_0_6),
           trainingData = \<lparr>inputs = \<lparr>columns = [''x''], rows = [(1, [11]), (0, [10])]\<rparr>,
                           outputs = \<lparr>columns = [''y''], rows = [(1, [21]), (0, [20])]\<rparr>\<rparr>,
           testData = \<lparr>inputs = \<lparr>columns = [''x''], rows = [(4, [14]), (3, [13]), (2, [12])]\<rparr>,
                       outputs = \<lparr>columns = [''y''], rows = [(4, [24]), (3, [23]), (2, [22])]\<rparr>\<rparr>\<rparr>
   \<and> \<lfloor>5 * float_0_6\<rfloor> = 2
   \<and> splitIndex 50 (PyFloat float_0_58) = Inr 28
   \<and> \<lfloor>50 * (58 / 100 :: rat)\<rfloor> = 29"
  by code_simp

text \<open>
  C7, as the code has it. On a valid dataset, when the generator returns a permutation of
  the row positions for every seed numpy accepts, the constructor returns an error if and only if both of testFraction and testData are
  given, or neither is, or the test fraction is not in \<open>[0, 1]\<close> (nan included), or a test
  fraction is given and the seed is not one numpy accepts; in every other case it returns
  an evaluator.
\<close>

theorem C7_construction_errors:
  assumes "valid_data d"
    and "valid_seed randomSeed \<Longrightarrow> permutation_of (len d) (permutation randomSeed (len d))"
  shows "((\<exists>e. VectorModelEvaluator_init permutation d tfrac tdata randomSeed = Inl e) \<longleftrightarrow>
            (tfrac \<noteq> None \<and> tdata \<noteq> None) \<or> (tfrac = None \<and> tdata = None)
            \<or> (\<exists>tf. tfrac = Some tf \<and> \<not> in_unit_interval tf)
            \<or> (tfrac \<noteq> None \<and> \<not> valid_seed randomSeed))
       \<and> ((\<exists>ev. VectorModelEvaluator_init permutation d tfrac tdata randomSeed = Inr ev) \<longleftrightarrow>
            \<not> ((tfrac \<noteq> None \<and> tdata \<noteq> None) \<or> (tfrac = None \<and> tdata = None)
            \<or> (\<exists>tf. tfrac = Some tf \<and> \<not> in_unit_interval tf)
            \<or> (tfrac \<noteq> None \<and> \<not> valid_seed randomSeed)))"
proof (cases tfrac)
  case None
  then show ?thesis
    by (cases tdata) (simp_all add: VectorModelEvaluator_init_def)
next
  case (Some tf)
  show ?thesis
  proof (cases tdata)
    case (Some td)
    with \<open>tfrac = Some tf\<close> show ?thesis by (simp add: VectorModelEvaluator_init_def)
  next
    case None
    show ?thesis
    proof (cases "in_unit_interval tf")
      case False
      with None \<open>tfrac = Some tf\<close> show ?thesis
        by (simp add: VectorModelEvaluator_init_def)
    next
      case True
      show ?thesis
      proof (cases "valid_seed randomSeed")
        case False
        with True None \<open>tfrac = Some tf\<close> show ?thesis
          by (simp add: VectorModelEvaluator_init_def RandomState_permutation_def)
      next
        case seed: True
        from splitIndex_in_unit_interval [OF True, of "len d"] obtain k where
          k: "splitIndex (len d) tf = Inr k" by blast
        have "\<exists>ev. VectorModelEvaluator_init permutation d (Some tf) None randomSeed = Inr ev"
          using evaluator_init_fraction(1)
            [of d tf randomSeed permutation k, OF assms(1) True seed assms(2) [OF seed] k]
          by blast
        with True seed None \<open>tfrac = Some tf\<close> show ?thesis by auto
      qed
    qed
  qed
qed

text \<open>
  One construction that returns an evaluator from a fraction, one from test data, and the
  four kinds of construction that raise.
\<close>

theorem C7_construction_errors_witness:
  "(\<exists>ev. VectorModelEvaluator_init reversing_permutation five_rows (Some (PyFloat (1 / 2))) None 42 = Inr ev)
   \<and> VectorModelEvaluator_init reversing_permutation five_rows (Some (PyFloat (3 / 2))) None 42
      = Inl (Exception ''invalid testFraction'')
   \<and> VectorModelEvaluator_init reversing_permutation five_rows (Some PyFloatNaN) None 42
      = Inl (Exception ''invalid testFraction'')
   \<and> VectorModelEvaluator_init reversing_permutation five_rows None None 42
      = Inl (Exception ''Either testFraction or testData must be provided'')
   \<and> VectorModelEvaluator_init reversing_permutation five_rows (Some (PyFloat (1 / 2)))
        (Some five_other_rows) 42
      = Inl (Exception ''Cannot provide both testFraction and testData'')
   \<and> VectorModelEvaluator_init reversing_permutation five_rows (Some (PyFloat (1 / 2))) None (- 1)
      = Inl (ValueError ''Seed must be between 0 and 2**32 - 1'')
   \<and> VectorModelEvaluator_init reversing_permutation five_rows None (Some five_other_rows) 42
      = Inr \<lparr>testFraction = None, trainingData = five_rows, testData = five_other_rows\<rparr>"
proof -
  have v: "valid_data five_rows"
    by (simp add: valid_data_def five_rows_def len_df_def DataFrame_of_column_def)
  have p: "permutation_of (len five_rows) (reversing_permutation 42 (len five_rows))"
    by (simp add: permutation_of_def reversing_permutation_def)
  have a: "\<exists>ev. VectorModelEvaluator_init reversing_permutation five_rows (Some (PyFloat (1 / 2))) None 42 = Inr ev"
    using C7_construction_errors [where d = five_rows and permutation = reversing_permutation
        and randomSeed = 42 and tfrac = "Some (PyFloat (1 / 2))" and tdata = None, OF v p]
    by (simp add: in_unit_interval_def valid_seed_def)
  have b: "VectorModelEvaluator_init reversing_permutation five_rows (Some (PyFloat (3 / 2))) None 42
      = Inl (Exception ''invalid testFraction'')"
    "VectorModelEvaluator_init reversing_permutation five_rows (Some PyFloatNaN) None 42
      = Inl (Exception ''invalid testFraction'')"
    by (simp_all add: VectorModelEvaluator_init_def in_unit_interval_def)
  have c: "VectorModelEvaluator_init reversing_permutation five_rows None None 42
      = Inl (Exception ''Either testFraction or testData must be provided'')"
    by (simp add: VectorModelEvaluator_init_def)
  have d: "VectorModelEvaluator_init reversing_permutation five_rows (Some (PyFloat (1 / 2)))
        (Some five_other_rows) 42
      = Inl (Exception ''Cannot provide both testFraction and testData'')"
    by (simp add: VectorModelEvaluator_init_def)
  have s: "VectorModelEvaluator_init reversing_permutation five_rows (Some (PyFloat (1 / 2))) None (- 1)
      = Inl (ValueError ''Seed must be between 0 and 2**32 - 1'')"
    by (simp add: VectorModelEvaluator_init_def in_unit_interval_def
        RandomState_permutation_def valid_seed_def)
  have e: "VectorModelEvaluator_init reversing_permutation five_rows None (Some five_other_rows) 42
      = Inr \<lparr>testFraction = None, trainingData = five_rows, testData = five_other_rows\<rparr>"
    by (simp add: VectorModelEvaluator_init_def)
  from a b c d s e show ?thesis by blast
qed

text \<open>
  The claim that construction succeeds in all other cases fails for the seed \<open>2 ^ 32\<close>:
  one argument is given, the fraction is in \<open>[0, 1]\<close>, and the constructor raises the
  ValueError of \<^verbatim>\<open>RandomState\<close>.
\<close>

theorem C7_seed_counterexample:
  "in_unit_interval (PyFloat (1 / 2))
   \<and> valid_data five_rows
   \<and> VectorModelEvaluator_init reversing_permutation five_rows (Some (PyFloat (1 / 2))) None
        4294967296
      = Inl (ValueError ''Seed must be between 0 and 2**32 - 1'')"
  by (simp add: VectorModelEvaluator_init_def in_unit_interval_def RandomState_permutation_def
      valid_seed_def valid_data_def five_rows_def len_df_def DataFrame_of_column_def)

section \<open>Properties of VectorModelCrossValidator\<close>

lemma set_slice_subset: "set (slice xs a b) \<subseteq> set xs"
  unfolding slice_def Let_def by (meson order_trans set_drop_subset set_take_subset)

lemma set_slice_from_subset: "set (slice_from xs a) \<subseteq> set xs"
  by (simp add: slice_from_def set_drop_subset)

lemma set_slice_to_subset: "set (slice_to xs a) \<subseteq> set xs"
  by (simp add: slice_to_def set_take_subset)

lemma set_fold_testIndices: "set (fold_testIndices p m i) \<subseteq> set p"
  by (simp add: fold_testIndices_def Let_def set_slice_subset)

lemma set_fold_trainIndices: "set (fold_trainIndices p m i) \<subseteq> set p"
  using set_slice_from_subset set_slice_to_subset
  by (fastforce simp: fold_trainIndices_def Let_def)

lemma createModelEvaluator_eq:
  "createModelEvaluator permutation tr te = Inr \<lparr>testFraction = None, trainingData = tr, testData = te\<rparr>"
  by (simp add: createModelEvaluator_def VectorModelEvaluator_init_def)

lemma cv_loop_eq:
  assumes "valid_data d" and "set p \<subseteq> {0..<len d}"
  shows "cv_loop permutation d p m is evs = Inr (evs @ map (fold_evaluator d p m) is)"
proof (induction "is" arbitrary: evs)
  case Nil
  show ?case by simp
next
  case (Cons i "is")
  have tr: "filterIndices d (map int (fold_trainIndices p m i)) = Inr (select_rows d (fold_trainIndices p m i))"
    using set_fold_trainIndices [of p m i] assms(2) by (intro filterIndices_select assms(1)) blast
  have te: "filterIndices d (map int (fold_testIndices p m i)) = Inr (select_rows d (fold_testIndices p m i))"
    using set_fold_testIndices [of p m i] assms(2) by (intro filterIndices_select assms(1)) blast
  show ?case
    by (simp add: tr te createModelEvaluator_eq Cons.IH fold_evaluator_def)
qed

lemma crossvalidator_init_eq:
  assumes "valid_data d" and "set (permutation randomSeed (len d)) \<subseteq> {0..<len d}"
    and "folds \<noteq> 0" and "valid_seed randomSeed"
  shows "VectorModelCrossValidator_init permutation d folds randomSeed =
    Inr \<lparr>modelEvaluators = map (fold_evaluator d (permutation randomSeed (len d)) (int (len d) div folds)) (py_range folds)\<rparr>"
  using assms(3,4)
  by (simp add: VectorModelCrossValidator_init_def RandomState_permutation_def Let_def
      cv_loop_eq [OF assms(1,2)])

lemma fold_testIndices_nat:
  "fold_testIndices p (int m) (int i) = take m (drop (i * m) p)"
proof -
  have a: "int i * int m = int (i * m)" "int (i * m) + int m = int (i * m + m)"
    by simp_all
  have b: "min (length p) (i * m + m) - min (length p) (i * m) = min (length p - i * m) m"
    by arith
  have "fold_testIndices p (int m) (int i)
      = take (min (length p - i * m) m) (drop (min (length p) (i * m)) p)"
    unfolding fold_testIndices_def Let_def slice_def a slice_bound_int b ..
  also have "\<dots> = take m (drop (i * m) p)"
    by (cases "i * m \<le> length p") (simp_all add: min_def)
  finally show ?thesis .
qed

lemma fold_trainIndices_nat:
  "fold_trainIndices p (int m) (int i) = take (i * m) p @ drop (i * m + m) p"
proof -
  have a: "int i * int m = int (i * m)" "int (i * m) + int m = int (i * m + m)"
    by simp_all
  have "fold_trainIndices p (int m) (int i)
      = take (min (length p) (i * m)) p @ drop (min (length p) (i * m + m)) p"
    unfolding fold_trainIndices_def Let_def slice_to_def slice_from_def a slice_bound_int ..
  also have "\<dots> = take (i * m) p @ drop (i * m + m) p"
    by (simp add: min_def)
  finally show ?thesis .
qed

lemma fold_indices_facts:
  assumes "distinct p" and "i < K"
  shows "set (spec_remainderIndices p K) \<subseteq> set (fold_trainIndices p (int (length p div K)) (int i))"
    and "set (spec_remainderIndices p K) \<inter> set (fold_testIndices p (int (length p div K)) (int i)) = {}"
    and "set (fold_trainIndices p (int (length p div K)) (int i)) \<inter> set (fold_testIndices p (int (length p div K)) (int i)) = {}"
    and "set (fold_trainIndices p (int (length p div K)) (int i)) \<union> set (fold_testIndices p (int (length p div K)) (int i)) = set p"
    and "length (fold_testIndices p (int (length p div K)) (int i)) = length p div K"
proof -
  let ?m = "length p div K"
  have le: "i * ?m + ?m \<le> K * ?m"
  proof -
    have "Suc i * ?m \<le> K * ?m" using assms(2) by (intro mult_le_mono1) simp
    then show ?thesis by (simp add: add.commute)
  qed
  have le2: "K * ?m \<le> length p" by (simp add: mult.commute)
  have sub: "set (drop (K * ?m) p) \<subseteq> set (drop (i * ?m + ?m) p)"
    using le by (rule set_drop_subset_set_drop)
  show "set (spec_remainderIndices p K) \<subseteq> set (fold_trainIndices p (int ?m) (int i))"
    using sub by (auto simp: spec_remainderIndices_def fold_trainIndices_nat)
  have t: "take ?m (drop (i * ?m) p) = drop (i * ?m) (take (i * ?m + ?m) p)"
    by (simp add: drop_take)
  have d1: "set (take (i * ?m + ?m) p) \<inter> set (drop (i * ?m + ?m) p) = {}"
    using assms(1) by (simp add: set_take_disj_set_drop_if_distinct)
  have d2: "set (take (i * ?m) p) \<inter> set (drop (i * ?m) p) = {}"
    using assms(1) by (simp add: set_take_disj_set_drop_if_distinct)
  have s1: "set (fold_testIndices p (int ?m) (int i)) \<subseteq> set (take (i * ?m + ?m) p)"
    unfolding fold_testIndices_nat t by (rule set_drop_subset)
  have s2: "set (fold_testIndices p (int ?m) (int i)) \<subseteq> set (drop (i * ?m) p)"
    unfolding fold_testIndices_nat by (rule set_take_subset)
  show "set (spec_remainderIndices p K) \<inter> set (fold_testIndices p (int ?m) (int i)) = {}"
    using s1 d1 sub by (auto simp: spec_remainderIndices_def)
  show "set (fold_trainIndices p (int ?m) (int i)) \<inter> set (fold_testIndices p (int ?m) (int i)) = {}"
    using s1 s2 d1 d2 by (auto simp: fold_trainIndices_nat)
  have "p = take (i * ?m) p @ take ?m (drop (i * ?m) p) @ drop (i * ?m + ?m) p"
    by (metis add.commute append_take_drop_id drop_drop)
  then have "set p = set (take (i * ?m) p) \<union> set (take ?m (drop (i * ?m) p)) \<union> set (drop (i * ?m + ?m) p)"
    by (metis set_append Un_assoc)
  then show "set (fold_trainIndices p (int ?m) (int i)) \<union> set (fold_testIndices p (int ?m) (int i)) = set p"
    by (auto simp: fold_trainIndices_nat fold_testIndices_nat)
  have "i * ?m + ?m \<le> length p" using le le2 by (rule order_trans)
  then have "?m \<le> length p - i * ?m" by arith
  then show "length (fold_testIndices p (int ?m) (int i)) = ?m"
    by (simp add: fold_testIndices_nat)
qed

text \<open>
  C1, as the code has it. For a valid dataset, \<open>folds > 0\<close>, a seed numpy accepts and a
  permutation of the row positions, the constructor returns one evaluator per fold; the evaluator of fold \<open>i\<close>
  holds the rows at \<open>fold_trainIndices\<close> and \<open>fold_testIndices\<close>; the remainder positions
  (the last \<open>N mod K\<close> of the permutation) are in no fold's test indices and are in every
  fold's training indices.
\<close>

theorem C1_remainder_in_training:
  assumes "valid_data d" and "0 < folds" and "valid_seed randomSeed"
    and "permutation_of (len d) (permutation randomSeed (len d))"
    and "i < nat folds"
  shows "\<exists>cv. VectorModelCrossValidator_init permutation d folds randomSeed = Inr cv
     \<and> length (modelEvaluators cv) = nat folds
     \<and> filterIndices d (map int
          (fold_trainIndices (permutation randomSeed (len d)) (int (len d) div folds) (int i)))
         = Inr (trainingData (modelEvaluators cv ! i))
     \<and> filterIndices d (map int
          (fold_testIndices (permutation randomSeed (len d)) (int (len d) div folds) (int i)))
         = Inr (testData (modelEvaluators cv ! i))
     \<and> set (spec_remainderIndices (permutation randomSeed (len d)) (nat folds))
         \<subseteq> set (fold_trainIndices (permutation randomSeed (len d)) (int (len d) div folds) (int i))
     \<and> set (spec_remainderIndices (permutation randomSeed (len d)) (nat folds))
         \<inter> set (fold_testIndices (permutation randomSeed (len d)) (int (len d) div folds) (int i)) = {}
     \<and> length (spec_remainderIndices (permutation randomSeed (len d)) (nat folds))
         = len d mod nat folds"
proof -
  let ?p = "permutation randomSeed (len d)"
  let ?m = "int (len d) div folds"
  let ?K = "nat folds"
  have lp: "length ?p = len d" using assms(4) by (rule permutation_of_length)
  have dp: "distinct ?p" and sp: "set ?p = {0..<len d}"
    using assms(4) by (simp_all add: permutation_of_def)
  have m: "?m = int (length ?p div ?K)"
    using assms(2) by (simp add: lp zdiv_int)
  have init: "VectorModelCrossValidator_init permutation d folds randomSeed
      = Inr \<lparr>modelEvaluators = map (fold_evaluator d ?p ?m) (py_range folds)\<rparr>"
    using assms(2) sp by (intro crossvalidator_init_eq assms(1,3)) simp_all
  have nth: "map (fold_evaluator d ?p ?m) (py_range folds) ! i = fold_evaluator d ?p ?m (int i)"
    using assms(5) by (simp add: py_range_def)
  have tr: "filterIndices d (map int (fold_trainIndices ?p ?m (int i)))
      = Inr (select_rows d (fold_trainIndices ?p ?m (int i)))"
    using set_fold_trainIndices [of ?p ?m "int i"] sp
    by (intro filterIndices_select assms(1)) blast
  have te: "filterIndices d (map int (fold_testIndices ?p ?m (int i)))
      = Inr (select_rows d (fold_testIndices ?p ?m (int i)))"
    using set_fold_testIndices [of ?p ?m "int i"] sp
    by (intro filterIndices_select assms(1)) blast
  note f = fold_indices_facts [OF dp assms(5), folded m]
  have K: "?K * (len d div ?K) \<le> len d" by (simp add: mult.commute)
  have lr: "length (spec_remainderIndices ?p ?K) = len d mod ?K"
    by (simp add: spec_remainderIndices_def lp minus_mult_div_eq_mod)
  show ?thesis
    unfolding init using nth tr te f(1,2) lr
    by (simp add: py_range_def fold_evaluator_def)
qed

text \<open>
  Five rows in two folds under the reversing permutation: position 0 is the remainder.
\<close>

theorem C1_remainder_in_training_witness:
  "spec_remainderIndices (reversing_permutation 42 5) 2 = [0]
   \<and> fold_trainIndices (reversing_permutation 42 5) 2 1 = [4, 3, 0]
   \<and> fold_testIndices (reversing_permutation 42 5) 2 1 = [2, 1]
   \<and> set (spec_remainderIndices (reversing_permutation 42 5) 2)
        \<subseteq> set (fold_trainIndices (reversing_permutation 42 5) 2 1)
   \<and> set (spec_remainderIndices (reversing_permutation 42 5) 2)
        \<inter> set (fold_testIndices (reversing_permutation 42 5) 2 1) = {}
   \<and> (\<exists>cv. VectorModelCrossValidator_init reversing_permutation five_rows 2 42 = Inr cv
          \<and> length (modelEvaluators cv) = 2
          \<and> trainingData (modelEvaluators cv ! 1)
              = \<lparr>inputs = \<lparr>columns = [''x''], rows = [(4, [14]), (3, [13]), (0, [10])]\<rparr>,
                 outputs = \<lparr>columns = [''y''], rows = [(4, [24]), (3, [23]), (0, [20])]\<rparr>\<rparr>)"
proof -
  have v: "valid_data five_rows"
    by (simp add: valid_data_def five_rows_def len_df_def DataFrame_of_column_def)
  have l: "len five_rows = 5"
    by (simp add: len_def five_rows_def len_df_def DataFrame_of_column_def)
  have p: "permutation_of (len five_rows) (reversing_permutation 42 (len five_rows))"
    by (simp add: permutation_of_def reversing_permutation_def)
  have r: "spec_remainderIndices (reversing_permutation 42 5) 2 = [0]"
    "fold_trainIndices (reversing_permutation 42 5) 2 1 = [4, 3, 0]"
    "fold_testIndices (reversing_permutation 42 5) 2 1 = [2, 1]"
    by code_simp+
  have f: "filterIndices five_rows [4, 3, 0]
    = Inr \<lparr>inputs = \<lparr>columns = [''x''], rows = [(4, [14]), (3, [13]), (0, [10])]\<rparr>,
           outputs = \<lparr>columns = [''y''], rows = [(4, [24]), (3, [23]), (0, [20])]\<rparr>\<rparr>"
    by code_simp
  have i: "(1 :: nat) < nat 2" "(0 :: int) < 2" by simp_all
  have s: "valid_seed 42" by (simp add: valid_seed_def)
  from C1_remainder_in_training [where d = five_rows and folds = 2 and i = 1
      and permutation = reversing_permutation and randomSeed = 42, OF v i(2) s p i(1)]
  obtain cv where
    cv: "VectorModelCrossValidator_init reversing_permutation five_rows 2 42 = Inr cv"
      "length (modelEvaluators cv) = nat 2"
      "filterIndices five_rows (map int
          (fold_trainIndices (reversing_permutation 42 (len five_rows)) (int (len five_rows) div 2) (int 1)))
         = Inr (trainingData (modelEvaluators cv ! 1))"
      "set (spec_remainderIndices (reversing_permutation 42 (len five_rows)) (nat 2))
         \<subseteq> set (fold_trainIndices (reversing_permutation 42 (len five_rows)) (int (len five_rows) div 2) (int 1))"
      "set (spec_remainderIndices (reversing_permutation 42 (len five_rows)) (nat 2))
         \<inter> set (fold_testIndices (reversing_permutation 42 (len five_rows)) (int (len five_rows) div 2) (int 1)) = {}"
    by blast
  from cv(3) have t: "trainingData (modelEvaluators cv ! 1)
      = \<lparr>inputs = \<lparr>columns = [''x''], rows = [(4, [14]), (3, [13]), (0, [10])]\<rparr>,
         outputs = \<lparr>columns = [''y''], rows = [(4, [24]), (3, [23]), (0, [20])]\<rparr>\<rparr>"
    by (simp add: l r f)
  from cv(4,5) have s: "set (spec_remainderIndices (reversing_permutation 42 5) 2)
        \<subseteq> set (fold_trainIndices (reversing_permutation 42 5) 2 1)"
      "set (spec_remainderIndices (reversing_permutation 42 5) 2)
        \<inter> set (fold_testIndices (reversing_permutation 42 5) 2 1) = {}"
    by (simp_all add: l)
  from cv(1,2) t have "\<exists>cv. VectorModelCrossValidator_init reversing_permutation five_rows 2 42 = Inr cv
          \<and> length (modelEvaluators cv) = 2
          \<and> trainingData (modelEvaluators cv ! 1)
              = \<lparr>inputs = \<lparr>columns = [''x''], rows = [(4, [14]), (3, [13]), (0, [10])]\<rparr>,
                 outputs = \<lparr>columns = [''y''], rows = [(4, [24]), (3, [23]), (0, [20])]\<rparr>\<rparr>"
    by simp
  with r s show ?thesis by blast
qed

text \<open>
  The claim that the remainder is in no fold's training set fails there: position 0 is
  among the training indices of both folds, and the row labelled 0 is in the training data
  of both evaluators.
\<close>

theorem C1_remainder_excluded_counterexample:
  "len five_rows = 5
   \<and> spec_remainderIndices (reversing_permutation 42 5) 2 = [0]
   \<and> fold_trainIndices (reversing_permutation 42 5) (5 div 2) 0 = [2, 1, 0]
   \<and> fold_trainIndices (reversing_permutation 42 5) (5 div 2) 1 = [4, 3, 0]
   \<and> VectorModelCrossValidator_init reversing_permutation five_rows 2 42
    = Inr \<lparr>modelEvaluators = [
        \<lparr>testFraction = None,
         trainingData = \<lparr>inputs = \<lparr>columns = [''x''], rows = [(2, [12]), (1, [11]), (0, [10])]\<rparr>,
                         outputs = \<lparr>columns = [''y''], rows = [(2, [22]), (1, [21]), (0, [20])]\<rparr>\<rparr>,
         testData = \<lparr>inputs = \<lparr>columns = [''x''], rows = [(4, [14]), (3, [13])]\<rparr>,
                     outputs = \<lparr>columns = [''y''], rows = [(4, [24]), (3, [23])]\<rparr>\<rparr>\<rparr>,
        \<lparr>testFraction = None,
         trainingData = \<lparr>inputs = \<lparr>columns = [''x''], rows = [(4, [14]), (3, [13]), (0, [10])]\<rparr>,
                         outputs = \<lparr>columns = [''y''], rows = [(4, [24]), (3, [23]), (0, [20])]\<rparr>\<rparr>,
         testData = \<lparr>inputs = \<lparr>columns = [''x''], rows = [(2, [12]), (1, [11])]\<rparr>,
                     outputs = \<lparr>columns = [''y''], rows = [(2, [22]), (1, [21])]\<rparr>\<rparr>\<rparr>]\<rparr>"
  by code_simp




section \<open>Properties of ChainedVectorRegressionPredictor\<close>

lemma predict_loop_done:
  "n \<le> k \<Longrightarrow> predict_loop p n k y calls = (Inr y, calls)"
  by (simp add: predict_loop.simps)

text \<open>
  C2, as the code has it. When the wrapped predictor answers \<open>x\<close> with a frame of another
  column count, construction still returns the chained predictor, without calling the
  wrapped predictor; it is \<open>predict\<close> that fails, after exactly one call to the wrapped
  predictor (with \<open>x\<close>) and before any chained call.
\<close>

theorem C2_mismatch_fails_in_predict:
  assumes "pm_predict p x = Inr y" and "shape1 y \<noteq> shape1 x"
  shows "ChainedVectorRegressionPredictor_init p n
           = (Inr \<lparr>nChainedPredictions = n, predictor = p\<rparr>, [])
     \<and> ChainedVectorRegressionPredictor_predict \<lparr>nChainedPredictions = n, predictor = p\<rparr> x
           = (Inl (Exception ''cannot be used for chained execution''), [x])"
  using assms
  by (simp add: ChainedVectorRegressionPredictor_init_def
      ChainedVectorRegressionPredictor_predict_def)

text \<open>
  A predictor that adds a column, chained three times.
\<close>

theorem C2_mismatch_fails_in_predict_witness:
  "ChainedVectorRegressionPredictor_init widening_predictor 3
     = (Inr \<lparr>nChainedPredictions = 3, predictor = widening_predictor\<rparr>, [])
   \<and> ChainedVectorRegressionPredictor_predict
       \<lparr>nChainedPredictions = 3, predictor = widening_predictor\<rparr>
       (DataFrame_of_column ''x'' [5, 6])
     = (Inl (Exception ''cannot be used for chained execution''),
        [DataFrame_of_column ''x'' [5, 6]])"
proof -
  let ?x = "DataFrame_of_column ''x'' [5, 6 :: int]"
  let ?y = "\<lparr>columns = [''extra'', ''x''], rows = [(0, [0, 5]), (1, [0, 6 :: int])]\<rparr>"
  have 1: "pm_predict widening_predictor ?x = Inr ?y"
    by (simp add: widening_predictor_def DataFrame_of_column_def)
  have 2: "shape1 ?y \<noteq> shape1 ?x" by (simp add: shape1_def DataFrame_of_column_def)
  show ?thesis by (rule C2_mismatch_fails_in_predict [OF 1 2])
qed

text \<open>
  The claim that the failure occurs at construction, before any call to the wrapped
  predictor, fails there: construction returns the object, and \<open>predict\<close> raises after
  it called the wrapped predictor once.
\<close>

theorem C2_construction_fails_counterexample:
  "pm_predict widening_predictor (DataFrame_of_column ''x'' [5, 6])
     = Inr \<lparr>columns = [''extra'', ''x''], rows = [(0, [0, 5]), (1, [0, 6])]\<rparr>
   \<and> shape1 (DataFrame_of_column ''x'' [5, 6 :: int]) = 1
   \<and> shape1 \<lparr>columns = [''extra'', ''x''], rows = [(0, [0, 5]), (1, [0, 6 :: int])]\<rparr> = 2
   \<and> fst (ChainedVectorRegressionPredictor_init widening_predictor 3)
     = Inr \<lparr>nChainedPredictions = 3, predictor = widening_predictor\<rparr>
   \<and> snd (ChainedVectorRegressionPredictor_predict
       \<lparr>nChainedPredictions = 3, predictor = widening_predictor\<rparr>
       (DataFrame_of_column ''x'' [5, 6]))
     = [DataFrame_of_column ''x'' [5, 6]]"
  by (simp add: ChainedVectorRegressionPredictor_init_def
      ChainedVectorRegressionPredictor_predict_def widening_predictor_def shape1_def
      DataFrame_of_column_def)

text \<open>
  C8, as the code has it. With \<open>nChainedPredictions = 1\<close>, \<open>predict\<close> calls the wrapped
  predictor exactly once, with \<open>x\<close>; it returns what that call returned when the call
  succeeded with as many columns as \<open>x\<close> has, the call's error when it failed, and the
  dimension error when the column counts differ.
\<close>

theorem C8_single_prediction:
  assumes "nChainedPredictions self = 1"
  shows "ChainedVectorRegressionPredictor_predict self x =
           ((case pm_predict (predictor self) x of
               Inl e \<Rightarrow> Inl e
             | Inr y \<Rightarrow>
                 if shape1 y = shape1 x then Inr y
                 else Inl (Exception ''cannot be used for chained execution'')), [x])"
  using assms
  by (simp add: ChainedVectorRegressionPredictor_predict_def predict_loop_done
      split: sum.splits)

text \<open>
  A predictor that doubles every cell, chained once.
\<close>

theorem C8_single_prediction_witness:
  "ChainedVectorRegressionPredictor_predict
      \<lparr>nChainedPredictions = 1, predictor = doubling_predictor\<rparr>
      (DataFrame_of_column ''x'' [5, 6])
    = (Inr \<lparr>columns = [''x''], rows = [(0, [10]), (1, [12])]\<rparr>, [DataFrame_of_column ''x'' [5, 6]])
   \<and> pm_predict doubling_predictor (DataFrame_of_column ''x'' [5, 6])
    = Inr \<lparr>columns = [''x''], rows = [(0, [10]), (1, [12])]\<rparr>"
proof -
  have d: "pm_predict doubling_predictor (DataFrame_of_column ''x'' [5, 6])
    = Inr \<lparr>columns = [''x''], rows = [(0, [10]), (1, [12])]\<rparr>"
    by (simp add: doubling_predictor_def DataFrame_of_column_def)
  have n: "nChainedPredictions \<lparr>nChainedPredictions = 1, predictor = doubling_predictor\<rparr> = 1"
    by simp
  from C8_single_prediction [OF n, of "DataFrame_of_column ''x'' [5, 6]"] d
  show ?thesis by (simp add: shape1_def DataFrame_of_column_def)
qed

text \<open>
  The claim that the chained call succeeds exactly when the direct call does fails for
  a predictor from two columns to one: the direct call returns a frame, the chained call
  raises.
\<close>

theorem C8_single_prediction_counterexample:
  "pm_predict summing_predictor \<lparr>columns = [''a'', ''b''], rows = [(0, [1, 2])]\<rparr>
    = Inr \<lparr>columns = [''y''], rows = [(0, [3])]\<rparr>
   \<and> ChainedVectorRegressionPredictor_predict
       \<lparr>nChainedPredictions = 1, predictor = summing_predictor\<rparr>
       \<lparr>columns = [''a'', ''b''], rows = [(0, [1, 2])]\<rparr>
    = (Inl (Exception ''cannot be used for chained execution''),
       [\<lparr>columns = [''a'', ''b''], rows = [(0, [1, 2])]\<rparr>])"
  by (simp add: ChainedVectorRegressionPredictor_predict_def summing_predictor_def shape1_def)

section \<open>Properties of VectorModel\<close>

lemma applyTransformers_no_fit_store: "snd (applyTransformers df rs False h) = h"
  by (induction rs arbitrary: df) (simp_all split: sum.splits)

lemma fit_predictedVariableNames:
  "predictedVariableNames (fst (snd (fit fit_impl self X Y h))) = Some (columns Y)"
  by (simp add: fit_def Let_def split: prod.splits sum.splits)

lemma fit_success:
  assumes "fit fit_impl self X Y h = (None, self', h')"
  shows "\<exists>X' Y' h1 s'.
           applyTransformers X (inputTransformers self) True h = (Inr X', h1)
         \<and> applyTransformers Y (trainingOutputTransformers self) True h1 = (Inr Y', h')
         \<and> fit_impl (self\<lparr>predictedVariableNames := Some (columns Y),
               modelInputVariableNames := Some (columns X'),
               modelOutputVariableNames := Some (columns Y')\<rparr>) X' Y' = (None, s')
         \<and> self' = self\<lparr>predictedVariableNames := Some (columns Y),
               modelInputVariableNames := Some (columns X'),
               modelOutputVariableNames := Some (columns Y'), impl := s'\<rparr>"
  using assms
  by (auto simp: fit_def Let_def applyInputTransformers_def split: prod.splits sum.splits)

lemma set_index_same_length:
  "length ls = len_df y \<Longrightarrow> set_index y ls = Inr (y\<lparr>rows := zip ls (map snd (rows y))\<rparr>)"
  by (simp add: set_index_def)

lemma set_index_Inr:
  "set_index y ls = Inr y' \<longleftrightarrow>
     length ls = len_df y \<and> y' = y\<lparr>rows := zip ls (map snd (rows y))\<rparr>"
  by (auto simp: set_index_def)

text \<open>
  C4, as the code has it. After \<open>fit\<close>, whether it succeeded or raised,
  \<open>getPredictedVariableNames\<close> returns the columns of \<open>Y\<close> as passed in, before the
  training-output transformers; when \<open>fit\<close> succeeded, the columns of the transformed
  \<open>Y\<close> are what \<open>getModelOutputVariableNames\<close> returns.
\<close>

theorem C4_predicted_names_are_original:
  "getPredictedVariableNames (fst (snd (fit fit_impl self X Y h))) = Some (columns Y)
   \<and> (fit fit_impl self X Y h = (None, self', h') \<longrightarrow>
        (\<exists>X' h1 Y'. applyTransformers X (inputTransformers self) True h = (Inr X', h1)
           \<and> applyTransformers Y (trainingOutputTransformers self) True h1 = (Inr Y', h')
           \<and> getModelOutputVariableNames self' = Some (columns Y')
           \<and> getPredictedVariableNames self' = Some (columns Y)))"
proof (intro conjI impI)
  show "getPredictedVariableNames (fst (snd (fit fit_impl self X Y h))) = Some (columns Y)"
    by (simp add: getPredictedVariableNames_def fit_predictedVariableNames)
next
  assume a: "fit fit_impl self X Y h = (None, self', h')"
  from fit_success [OF a] show "\<exists>X' h1 Y'.
      applyTransformers X (inputTransformers self) True h = (Inr X', h1)
      \<and> applyTransformers Y (trainingOutputTransformers self) True h1 = (Inr Y', h')
      \<and> getModelOutputVariableNames self' = Some (columns Y')
      \<and> getPredictedVariableNames self' = Some (columns Y)"
    by (auto simp: getModelOutputVariableNames_def getPredictedVariableNames_def)
qed

text \<open>A model whose training-output transformer renames \<open>y\<close> to \<open>y_scaled\<close>.\<close>

theorem C4_predicted_names_are_original_witness:
  "fst (fit no_op_fit (VectorModel_init [] [] [0] ())
      (DataFrame_of_column ''x'' [5, 6]) (DataFrame_of_column ''y'' [1, 2]) renaming_store) = None
   \<and> fst (snd (fit no_op_fit (VectorModel_init [] [] [0] ())
      (DataFrame_of_column ''x'' [5, 6]) (DataFrame_of_column ''y'' [1, 2]) renaming_store))
    = \<lparr>inputTransformers = [], outputTransformers = [], trainingOutputTransformers = [0],
       predictedVariableNames = Some [''y''], modelInputVariableNames = Some [''x''],
       modelOutputVariableNames = Some [''y_scaled''], impl = ()\<rparr>
   \<and> getPredictedVariableNames
       \<lparr>inputTransformers = [], outputTransformers = [], trainingOutputTransformers = [0],
        predictedVariableNames = Some [''y''], modelInputVariableNames = Some [''x''],
        modelOutputVariableNames = Some [''y_scaled''], impl = ()\<rparr> = Some [''y'']
   \<and> getModelOutputVariableNames
       \<lparr>inputTransformers = [], outputTransformers = [], trainingOutputTransformers = [0],
        predictedVariableNames = Some [''y''], modelInputVariableNames = Some [''x''],
        modelOutputVariableNames = Some [''y_scaled''], impl = ()\<rparr> = Some [''y_scaled'']"
proof -
  let ?m = "VectorModel_init [] [] [0] () :: (unit, int) VectorModel"
  let ?m' = "\<lparr>inputTransformers = [], outputTransformers = [], trainingOutputTransformers = [0],
        predictedVariableNames = Some [''y''], modelInputVariableNames = Some [''x''],
        modelOutputVariableNames = Some [''y_scaled''], impl = ()\<rparr> :: (unit, int) VectorModel"
  let ?X = "DataFrame_of_column ''x'' [5, 6 :: int]"
  let ?Y = "DataFrame_of_column ''y'' [1, 2 :: int]"
  obtain r m h where e: "fit no_op_fit ?m ?X ?Y renaming_store = (r, m, h)"
    by (cases "fit no_op_fit ?m ?X ?Y renaming_store")
  have r: "r = None" and m: "m = ?m'"
    using e
    by (simp_all add: fit_def VectorModel_init_def applyInputTransformers_def no_op_fit_def
        renaming_store_def renaming_transformer_def RuleBasedDataFrameTransformer_def
        DataFrame_of_column_def)
  from C4_predicted_names_are_original [of no_op_fit ?m ?X ?Y renaming_store ?m' h] e r m
  have "getPredictedVariableNames ?m' = Some (columns ?Y)"
    by auto
  then have p: "getPredictedVariableNames ?m' = Some [''y'']"
    by (simp add: DataFrame_of_column_def)
  have o: "getModelOutputVariableNames ?m' = Some [''y_scaled'']"
    by (simp add: getModelOutputVariableNames_def)
  from e r m p o show ?thesis by simp
qed

text \<open>
  The claim that \<open>getPredictedVariableNames\<close> returns the post-transform names fails
  there: the transformed frame has the column \<open>y_scaled\<close>, the fit succeeds, and the
  predicted variable names are \<open>[y]\<close>.
\<close>

theorem C4_post_transform_names_counterexample:
  "fst (applyTransformers (DataFrame_of_column ''y'' [1, 2]) [0] True renaming_store)
    = Inr \<lparr>columns = [''y_scaled''], rows = [(0, [1]), (1, [2])]\<rparr>
   \<and> fst (fit no_op_fit (VectorModel_init [] [] [0] ())
      (DataFrame_of_column ''x'' [5, 6]) (DataFrame_of_column ''y'' [1, 2]) renaming_store) = None
   \<and> getPredictedVariableNames (fst (snd (fit no_op_fit (VectorModel_init [] [] [0] ())
      (DataFrame_of_column ''x'' [5, 6]) (DataFrame_of_column ''y'' [1, 2]) renaming_store)))
    = Some [''y'']"
  by (simp add: fit_def VectorModel_init_def applyInputTransformers_def no_op_fit_def
      getPredictedVariableNames_def renaming_store_def renaming_transformer_def
      RuleBasedDataFrameTransformer_def DataFrame_of_column_def)

text \<open>
  C6, as the code has it. On a model that was never fitted, \<open>predict\<close> returns an error,
  whatever the input, the subclass and the transformers. After a successful \<open>fit\<close>, the
  recorded input columns are those of the transformed \<open>X\<close>. On a frame whose column
  list, after the input transformers as they are at prediction time, equals the recorded
  one, the check passes and \<open>predict\<close> is the subclass's \<^verbatim>\<open>_predict\<close> followed by the
  index assignment and the output transformers: it returns a frame exactly when
  \<^verbatim>\<open>_predict\<close> returns one with as many rows as its input and the output transformers
  return. On a frame whose transformed column list differs (in names or in order)
  \<open>predict\<close> raises.
\<close>

theorem C6_predict_contract:
  assumes "fit fit_impl self X Y h = (None, self', h')"
    and "fst (applyInputTransformers self' x False hp) = Inr x'"
  shows "(\<exists>e. predict predict_impl (VectorModel_init its ots tots s) xu hu = Inl e)
     \<and> (\<exists>X'. fst (applyInputTransformers self X True h) = Inr X'
            \<and> modelInputVariableNames self' = Some (columns X'))
     \<and> (Some (columns x') = modelInputVariableNames self' \<longrightarrow>
           checkAndTransformInputs self' x hp = Inr x'
         \<and> predict predict_impl self' x hp =
             (case predict_impl self' x' of
                Inl e \<Rightarrow> Inl e
              | Inr y \<Rightarrow>
                  (case set_index y (index x') of
                     Inl e \<Rightarrow> Inl e
                   | Inr y' \<Rightarrow> fst (applyTransformers y' (outputTransformers self') False hp)))
         \<and> (\<forall>z. predict predict_impl self' x hp = Inr z \<longleftrightarrow>
               (\<exists>y. predict_impl self' x' = Inr y \<and> len_df y = len_df x'
                  \<and> fst (applyTransformers (y\<lparr>rows := zip (index x') (map snd (rows y))\<rparr>)
                        (outputTransformers self') False hp) = Inr z)))
     \<and> (Some (columns x') \<noteq> modelInputVariableNames self' \<longrightarrow>
           predict predict_impl self' x hp = Inl (Exception ''Inadmissible input data frame''))"
proof -
  have unfit: "\<exists>e. predict predict_impl (VectorModel_init its ots tots s) xu hu = Inl e"
    by (simp add: predict_def checkAndTransformInputs_def getPredictedVariableNames_def
        VectorModel_init_def split: sum.splits)
  from fit_success [OF assms(1)] obtain X' Y' h1 s' where
    X': "applyTransformers X (inputTransformers self) True h = (Inr X', h1)"
    and Y': "applyTransformers Y (trainingOutputTransformers self) True h1 = (Inr Y', h')"
    and self': "self' = self\<lparr>predictedVariableNames := Some (columns Y),
               modelInputVariableNames := Some (columns X'),
               modelOutputVariableNames := Some (columns Y'), impl := s'\<rparr>"
    by blast
  have names: "predictedVariableNames self' = Some (columns Y)"
    "modelInputVariableNames self' = Some (columns X')"
    by (simp_all add: self')
  have rec: "\<exists>X'. fst (applyInputTransformers self X True h) = Inr X'
            \<and> modelInputVariableNames self' = Some (columns X')"
    using X' names by (simp add: applyInputTransformers_def)
  have chk: "checkAndTransformInputs self' x hp =
      (if Some (columns x') \<noteq> modelInputVariableNames self'
       then Inl (Exception ''Inadmissible input data frame'') else Inr x')"
    using assms(2) names(1)
    by (simp add: checkAndTransformInputs_def getPredictedVariableNames_def)
  have chk_ok: "Some (columns x') = modelInputVariableNames self' \<Longrightarrow>
      checkAndTransformInputs self' x hp = Inr x'"
    by (simp add: chk)
  have ok: "Some (columns x') = modelInputVariableNames self' \<Longrightarrow>
      predict predict_impl self' x hp =
             (case predict_impl self' x' of
                Inl e \<Rightarrow> Inl e
              | Inr y \<Rightarrow>
                  (case set_index y (index x') of
                     Inl e \<Rightarrow> Inl e
                   | Inr y' \<Rightarrow> fst (applyTransformers y' (outputTransformers self') False hp)))"
    by (simp add: predict_def chk)
  have li: "length (index x') = len_df x'" by (simp add: index_def len_df_def)
  have succ: "predict predict_impl self' x hp = Inr z \<longleftrightarrow>
               (\<exists>y. predict_impl self' x' = Inr y \<and> len_df y = len_df x'
                  \<and> fst (applyTransformers (y\<lparr>rows := zip (index x') (map snd (rows y))\<rparr>)
                        (outputTransformers self') False hp) = Inr z)"
    if m: "Some (columns x') = modelInputVariableNames self'" for z
  proof (cases "predict_impl self' x'")
    case (Inl e)
    then show ?thesis by (simp add: ok [OF m])
  next
    case (Inr y)
    show ?thesis
    proof (cases "len_df y = len_df x'")
      case True
      then show ?thesis
        using Inr by (simp add: ok [OF m] set_index_same_length li)
    next
      case False
      then have "set_index y (index x') = Inl (ValueError ''Length mismatch'')"
        by (simp add: set_index_def li)
      with False Inr show ?thesis by (simp add: ok [OF m])
    qed
  qed
  have bad: "Some (columns x') \<noteq> modelInputVariableNames self' \<Longrightarrow>
      predict predict_impl self' x hp = Inl (Exception ''Inadmissible input data frame'')"
    by (simp add: predict_def chk)
  show ?thesis
  proof (intro conjI impI allI)
    show "\<exists>e. predict predict_impl (VectorModel_init its ots tots s) xu hu = Inl e"
      by (rule unfit)
    show "\<exists>X'. fst (applyInputTransformers self X True h) = Inr X'
            \<and> modelInputVariableNames self' = Some (columns X')"
      by (rule rec)
    show "checkAndTransformInputs self' x hp = Inr x'"
      if "Some (columns x') = modelInputVariableNames self'"
      using that by (rule chk_ok)
    show "predict predict_impl self' x hp =
             (case predict_impl self' x' of
                Inl e \<Rightarrow> Inl e
              | Inr y \<Rightarrow>
                  (case set_index y (index x') of
                     Inl e \<Rightarrow> Inl e
                   | Inr y' \<Rightarrow> fst (applyTransformers y' (outputTransformers self') False hp)))"
      if "Some (columns x') = modelInputVariableNames self'"
      using that by (rule ok)
    show "predict predict_impl self' x hp = Inr z \<longleftrightarrow>
               (\<exists>y. predict_impl self' x' = Inr y \<and> len_df y = len_df x'
                  \<and> fst (applyTransformers (y\<lparr>rows := zip (index x') (map snd (rows y))\<rparr>)
                        (outputTransformers self') False hp) = Inr z)"
      if "Some (columns x') = modelInputVariableNames self'" for z
      using that by (rule succ)
    show "predict predict_impl self' x hp = Inl (Exception ''Inadmissible input data frame'')"
      if "Some (columns x') \<noteq> modelInputVariableNames self'"
      using that by (rule bad)
  qed
qed

text \<open>
  A model with one input transformer and one training-output transformer, both of the
  kind that remembers the columns it was fitted on, fitted on the column \<open>a\<close>. With two
  transformer objects the input transformer still answers \<open>a\<close> with the recorded column
  and \<open>predict\<close> returns; with one object in both lists the second \<^verbatim>\<open>fit\<close> has changed
  it, the same frame now gets another column name, and \<open>predict\<close> raises.
\<close>

theorem C6_predict_contract_witness:
  "predict row_sum_predict (VectorModel_init [0] [] [1] ())
      \<lparr>columns = [''a''], rows = [(7, [10])]\<rparr> remembering_store
    = Inl (Exception ''Cannot obtain predictions from non-trained model'')
   \<and> fst (fit no_op_fit (VectorModel_init [0] [] [1] ())
        (DataFrame_of_column ''a'' [1, 2]) (DataFrame_of_column ''y'' [3, 4]) remembering_store)
      = None
   \<and> fst (snd (fit no_op_fit (VectorModel_init [0] [] [1] ())
        (DataFrame_of_column ''a'' [1, 2]) (DataFrame_of_column ''y'' [3, 4]) remembering_store))
      = \<lparr>inputTransformers = [0], outputTransformers = [], trainingOutputTransformers = [1],
         predictedVariableNames = Some [''y''], modelInputVariableNames = Some [''a_of_a''],
         modelOutputVariableNames = Some [''y_of_y''], impl = ()\<rparr>
   \<and> predict row_sum_predict
        (fst (snd (fit no_op_fit (VectorModel_init [0] [] [1] ())
          (DataFrame_of_column ''a'' [1, 2]) (DataFrame_of_column ''y'' [3, 4]) remembering_store)))
        \<lparr>columns = [''a''], rows = [(7, [10])]\<rparr>
        (snd (snd (fit no_op_fit (VectorModel_init [0] [] [1] ())
          (DataFrame_of_column ''a'' [1, 2]) (DataFrame_of_column ''y'' [3, 4]) remembering_store)))
      = Inr \<lparr>columns = [''y''], rows = [(7, [10])]\<rparr>
   \<and> fst (fit no_op_fit (VectorModel_init [0] [] [0] ())
        (DataFrame_of_column ''a'' [1, 2]) (DataFrame_of_column ''y'' [3, 4]) remembering_store)
      = None
   \<and> predict row_sum_predict
        (fst (snd (fit no_op_fit (VectorModel_init [0] [] [0] ())
          (DataFrame_of_column ''a'' [1, 2]) (DataFrame_of_column ''y'' [3, 4]) remembering_store)))
        \<lparr>columns = [''a''], rows = [(7, [10])]\<rparr>
        (snd (snd (fit no_op_fit (VectorModel_init [0] [] [0] ())
          (DataFrame_of_column ''a'' [1, 2]) (DataFrame_of_column ''y'' [3, 4]) remembering_store)))
      = Inl (Exception ''Inadmissible input data frame'')"
proof -
  let ?B = "VectorModel_init [0] [] [1] () :: (unit, int) VectorModel"
  let ?A = "VectorModel_init [0] [] [0] () :: (unit, int) VectorModel"
  let ?X = "DataFrame_of_column ''a'' [1, 2 :: int]"
  let ?Y = "DataFrame_of_column ''y'' [3, 4 :: int]"
  let ?xa = "\<lparr>columns = [''a''], rows = [(7, [10 :: int])]\<rparr>"
  let ?B' = "\<lparr>inputTransformers = [0], outputTransformers = [], trainingOutputTransformers = [1],
         predictedVariableNames = Some [''y''], modelInputVariableNames = Some [''a_of_a''],
         modelOutputVariableNames = Some [''y_of_y''], impl = ()\<rparr> :: (unit, int) VectorModel"
  let ?A' = "\<lparr>inputTransformers = [0], outputTransformers = [], trainingOutputTransformers = [0],
         predictedVariableNames = Some [''y''], modelInputVariableNames = Some [''a_of_a''],
         modelOutputVariableNames = Some [''y_of_y''], impl = ()\<rparr> :: (unit, int) VectorModel"
  obtain hB where fB: "fit no_op_fit ?B ?X ?Y remembering_store = (None, ?B', hB)"
    and hB: "tr_state (hB 0) = [''a'']" "tr_apply (hB 0) = tr_apply remembering_transformer"
    by (simp add: fit_def VectorModel_init_def applyInputTransformers_def no_op_fit_def
        remembering_store_def remembering_transformer_def DataFrame_of_column_def)
  obtain hA where fA: "fit no_op_fit ?A ?X ?Y remembering_store = (None, ?A', hA)"
    and hA: "tr_state (hA 0) = [''y'']" "tr_apply (hA 0) = tr_apply remembering_transformer"
    by (simp add: fit_def VectorModel_init_def applyInputTransformers_def no_op_fit_def
        remembering_store_def remembering_transformer_def DataFrame_of_column_def)
  have tB: "fst (applyInputTransformers ?B' ?xa False hB)
      = Inr \<lparr>columns = [''a_of_a''], rows = [(7, [10])]\<rparr>"
    by (simp add: applyInputTransformers_def hB remembering_transformer_def)
  have tA: "fst (applyInputTransformers ?A' ?xa False hA)
      = Inr \<lparr>columns = [''a_of_y''], rows = [(7, [10])]\<rparr>"
    by (simp add: applyInputTransformers_def hA remembering_transformer_def)
  note good = C6_predict_contract [where predict_impl = row_sum_predict and xu = ?xa
      and hu = remembering_store and its = "[0]" and ots = "[]" and tots = "[1]" and s = "()",
      OF fB tB]
  note bad = C6_predict_contract [where predict_impl = row_sum_predict and xu = ?xa
      and hu = remembering_store and its = "[0]" and ots = "[]" and tots = "[1]" and s = "()",
      OF fA tA]
  have 1: "predict row_sum_predict ?B ?xa remembering_store
      = Inl (Exception ''Cannot obtain predictions from non-trained model'')"
    using good
    by (simp add: predict_def checkAndTransformInputs_def applyInputTransformers_def
        getPredictedVariableNames_def VectorModel_init_def remembering_store_def
        remembering_transformer_def)
  have 2: "predict row_sum_predict ?B' ?xa hB = Inr \<lparr>columns = [''y''], rows = [(7, [10])]\<rparr>"
    using good by (simp add: row_sum_predict_def set_index_def len_df_def index_def)
  have 3: "predict row_sum_predict ?A' ?xa hA = Inl (Exception ''Inadmissible input data frame'')"
    using bad by simp
  from 1 fB 2 fA 3 show ?thesis by simp
qed

text \<open>
  The claim that \<open>predict\<close> succeeds on every frame with the recorded column list fails
  for a subclass whose \<^verbatim>\<open>_predict\<close> returns a frame without rows: the fit succeeds, the
  frame has the recorded column, the check passes, and the index assignment raises.
\<close>

theorem C6_predict_succeeds_counterexample:
  "fst (fit no_op_fit (VectorModel_init [] [] [] ())
        (DataFrame_of_column ''a'' [1, 2]) (DataFrame_of_column ''y'' [3, 4]) remembering_store)
      = None
   \<and> modelInputVariableNames (fst (snd (fit no_op_fit (VectorModel_init [] [] [] ())
        (DataFrame_of_column ''a'' [1, 2]) (DataFrame_of_column ''y'' [3, 4]) remembering_store)))
      = Some [''a'']
   \<and> checkAndTransformInputs
        (fst (snd (fit no_op_fit (VectorModel_init [] [] [] ())
          (DataFrame_of_column ''a'' [1, 2]) (DataFrame_of_column ''y'' [3, 4]) remembering_store)))
        \<lparr>columns = [''a''], rows = [(7, [10])]\<rparr> remembering_store
      = Inr \<lparr>columns = [''a''], rows = [(7, [10])]\<rparr>
   \<and> predict no_rows_predict
        (fst (snd (fit no_op_fit (VectorModel_init [] [] [] ())
          (DataFrame_of_column ''a'' [1, 2]) (DataFrame_of_column ''y'' [3, 4]) remembering_store)))
        \<lparr>columns = [''a''], rows = [(7, [10])]\<rparr> remembering_store
      = Inl (ValueError ''Length mismatch'')"
  by (simp add: fit_def VectorModel_init_def applyInputTransformers_def no_op_fit_def
      predict_def checkAndTransformInputs_def getPredictedVariableNames_def no_rows_predict_def
      set_index_def len_df_def index_def DataFrame_of_column_def)

text \<open>
  C3, as the code has it. When \<open>Y\<close> has a first column, \<open>_fit\<close> records as labels the
  stringified distinct values of that column in order of first appearance (not sorted),
  and the model that \<open>_fitClassifier\<close> is called with already holds them; a \<open>fit\<close> of a
  classification model whose input transformers succeed leaves these labels.
\<close>

theorem C3_labels_first_appearance:
  assumes "0 < shape1 Y"
  shows "VectorClassificationModel_fit str fitClassifier self X Y =
      (fst (fitClassifier
              (self\<lparr>impl := (impl self)\<lparr>labels :=
                 Some (map str (unique (map (\<lambda>r. snd r ! 0) (rows Y))))\<rparr>\<rparr>) X Y),
       (impl self)\<lparr>labels := Some (map str (unique (map (\<lambda>r. snd r ! 0) (rows Y)))),
         classifier := snd (fitClassifier
              (self\<lparr>impl := (impl self)\<lparr>labels :=
                 Some (map str (unique (map (\<lambda>r. snd r ! 0) (rows Y))))\<rparr>\<rparr>) X Y)\<rparr>)
    \<and> (\<forall>X' h1. applyTransformers X its True h = (Inr X', h1) \<longrightarrow>
         labels (impl (fst (snd (fit (VectorClassificationModel_fit str fitClassifier)
                    (VectorClassificationModel_init its c) X Y h))))
           = Some (map str (unique (map (\<lambda>r. snd r ! 0) (rows Y)))))"
proof (intro conjI allI impI)
  show "VectorClassificationModel_fit str fitClassifier self X Y =
      (fst (fitClassifier
              (self\<lparr>impl := (impl self)\<lparr>labels :=
                 Some (map str (unique (map (\<lambda>r. snd r ! 0) (rows Y))))\<rparr>\<rparr>) X Y),
       (impl self)\<lparr>labels := Some (map str (unique (map (\<lambda>r. snd r ! 0) (rows Y)))),
         classifier := snd (fitClassifier
              (self\<lparr>impl := (impl self)\<lparr>labels :=
                 Some (map str (unique (map (\<lambda>r. snd r ! 0) (rows Y))))\<rparr>\<rparr>) X Y)\<rparr>)"
    using assms
    by (simp add: VectorClassificationModel_fit_def iloc_col_def Let_def split: prod.splits)
next
  fix X' h1
  assume a: "applyTransformers X its True h = (Inr X', h1)"
  have col: "iloc_col Y 0 = Inr (map (\<lambda>r. snd r ! 0) (rows Y))"
    using assms by (simp add: iloc_col_def)
  show "labels (impl (fst (snd (fit (VectorClassificationModel_fit str fitClassifier)
                    (VectorClassificationModel_init its c) X Y h))))
           = Some (map str (unique (map (\<lambda>r. snd r ! 0) (rows Y))))"
    by (simp add: fit_def VectorClassificationModel_init_def VectorModel_init_def
        applyInputTransformers_def a VectorClassificationModel_fit_def col Let_def
        split: prod.splits)
qed

text \<open>The classes \<open>b, a, b\<close>.\<close>

theorem C3_labels_first_appearance_witness:
  "fst (fit (VectorClassificationModel_fit str_of_string no_op_fitClassifier)
       (VectorClassificationModel_init [] ())
       (DataFrame_of_column ''x'' [''p'', ''q'', ''r''])
       (DataFrame_of_column ''class'' [''b'', ''a'', ''b'']) string_store) = None
   \<and> fst (snd (fit (VectorClassificationModel_fit str_of_string no_op_fitClassifier)
       (VectorClassificationModel_init [] ())
       (DataFrame_of_column ''x'' [''p'', ''q'', ''r''])
       (DataFrame_of_column ''class'' [''b'', ''a'', ''b'']) string_store))
     = \<lparr>inputTransformers = [], outputTransformers = [], trainingOutputTransformers = [],
        predictedVariableNames = Some [''class''], modelInputVariableNames = Some [''x''],
        modelOutputVariableNames = Some [''class''],
        impl = \<lparr>labels = Some [''b'', ''a''], classifier = ()\<rparr>\<rparr>"
proof -
  let ?Y = "DataFrame_of_column ''class'' [''b'', ''a'', ''b'']"
  let ?X = "DataFrame_of_column ''x'' [''p'', ''q'', ''r'']"
  have s: "0 < shape1 ?Y" by (simp add: shape1_def DataFrame_of_column_def)
  have u: "map str_of_string (unique (map (\<lambda>r. snd r ! 0) (rows ?Y))) = [''b'', ''a'']"
    by (simp add: unique_def DataFrame_of_column_def str_of_string_def)
  have t: "applyTransformers ?X [] True string_store = (Inr ?X, string_store)"
    by simp
  from C3_labels_first_appearance [OF s, where str = str_of_string
      and fitClassifier = no_op_fitClassifier and c = "()" and h = string_store and its = "[]"
      and X = ?X] t
  have l: "labels (impl (fst (snd (fit (VectorClassificationModel_fit str_of_string no_op_fitClassifier)
                    (VectorClassificationModel_init [] ()) ?X ?Y string_store)))) = Some [''b'', ''a'']"
    unfolding u by simp
  have "fst (fit (VectorClassificationModel_fit str_of_string no_op_fitClassifier)
       (VectorClassificationModel_init [] ()) ?X ?Y string_store) = None
   \<and> fst (snd (fit (VectorClassificationModel_fit str_of_string no_op_fitClassifier)
       (VectorClassificationModel_init [] ()) ?X ?Y string_store))
     = \<lparr>inputTransformers = [], outputTransformers = [], trainingOutputTransformers = [],
        predictedVariableNames = Some [''class''], modelInputVariableNames = Some [''x''],
        modelOutputVariableNames = Some [''class''],
        impl = \<lparr>labels = Some [''b'', ''a''], classifier = ()\<rparr>\<rparr>"
    by (simp add: fit_def VectorClassificationModel_init_def VectorModel_init_def
        applyInputTransformers_def VectorClassificationModel_fit_def iloc_col_def shape1_def
        unique_def DataFrame_of_column_def no_op_fitClassifier_def str_of_string_def)
  with l show ?thesis by simp
qed

text \<open>
  The claim that the recorded list is sorted fails there: the recorded labels are
  \<open>[b, a]\<close>, the sorted set of the stringified values is \<open>[a, b]\<close>.
\<close>

theorem C3_sorted_labels_counterexample:
  "labels (impl (fst (snd (fit (VectorClassificationModel_fit str_of_string no_op_fitClassifier)
       (VectorClassificationModel_init [] ())
       (DataFrame_of_column ''x'' [''p'', ''q'', ''r''])
       (DataFrame_of_column ''class'' [''b'', ''a'', ''b'']) string_store)))) = Some [''b'', ''a'']
   \<and> spec_sorted_labels str_of_string [''b'', ''a'', ''b''] = [''a'', ''b'']"
proof -
  have "spec_sorted_labels str_of_string [''b'', ''a'', ''b''] = [''a'', ''b'']"
    by code_simp
  then show ?thesis
    by (simp add: fit_def VectorClassificationModel_init_def VectorModel_init_def
        applyInputTransformers_def VectorClassificationModel_fit_def iloc_col_def shape1_def
        unique_def DataFrame_of_column_def no_op_fitClassifier_def str_of_string_def)
qed

end
